theory Spec2Isabelle
  imports Complex_Main "HOL-Library.Sublist"
begin

section \<open>Values shared by the routes\<close>

text \<open>
  Fixed identifiers of the program (feature names, model names, record ids, error
  messages) are \<open>string\<close>s. Text supplied in a request body is a JavaScript string: a
  sequence of UTF-16 code units, whose \<open>length\<close> counts code units and whose \<open>trim\<close>
  removes the ECMAScript white space and line terminators from both ends.
\<close>

type_synonym utf16 = "nat list"
type_synonym bytes = "nat list"

definition utf16_of :: "string \<Rightarrow> utf16" where
  "utf16_of s = map of_char s"

definition js_whitespace :: "nat \<Rightarrow> bool" where
  "js_whitespace c \<longleftrightarrow>
     c \<in> {0x09, 0x0A, 0x0B, 0x0C, 0x0D, 0x20, 0xA0, 0x1680, 0x2028, 0x2029, 0x202F, 0x205F,
          0x3000, 0xFEFF} \<or> (0x2000 \<le> c \<and> c \<le> 0x200A)"

definition trim :: "utf16 \<Rightarrow> utf16" where
  "trim s = rev (dropWhile js_whitespace (rev (dropWhile js_whitespace s)))"

text \<open>
  A thrown JavaScript error, as far as the routes inspect it: \<open>error.message\<close> and
  \<open>error?.response?.status\<close> (absent unless the provider attached an HTTP response).
\<close>

datatype js_error = JsError (message: string) (response_status: "nat option")

definition new_Error :: "string \<Rightarrow> js_error" where
  "new_Error msg = JsError msg None"

text \<open>
  \<open>Promise.race([providerPromise, timeoutPromise])\<close>: the environment decides which
  promise settles first. The timer's promise rejects with \<open>new Error("Request timeout")\<close>.
\<close>

datatype 'r settled = TimerFired | CallResolved 'r | CallRejected js_error

definition race :: "'r settled \<Rightarrow> js_error + 'r" where
  "race s = (case s of
      TimerFired \<Rightarrow> Inl (new_Error ''Request timeout'')
    | CallResolved r \<Rightarrow> Inr r
    | CallRejected e \<Rightarrow> Inl e)"

subsection \<open>HTTP responses\<close>

datatype gen_input =
    ImageInput (prompt: utf16) (style: "utf16 option") (size: "utf16 option")
  | FileInput (filename: string)

datatype gen_output = ImageOutput string | AnalysisOutput string

record history_row =
  row_id :: string
  row_feature :: string
  row_input :: gen_input
  row_output :: gen_output
  row_createdAt :: int

datatype js_num = NaN | Num rat | PosInfinity | NegInfinity

record pagination =
  currentPage :: js_num
  totalCount :: nat
  hasNextPage :: bool
  hasPreviousPage :: bool
  nextCursor :: "string option"
  limit :: js_num

datatype body =
    ErrorJson string                        \<comment> \<open>\<open>{ error }\<close>\<close>
  | ErrorDetailJson string string           \<comment> \<open>\<open>{ error, detail }\<close>\<close>
  | InternalErrorJson string                \<comment> \<open>\<open>{ message: "Internal server error", error }\<close>\<close>
  | ImageJson string                        \<comment> \<open>\<open>{ image }\<close>\<close>
  | AnalysisJson string                     \<comment> \<open>\<open>{ analysis }\<close>\<close>
  | HistoryJson "history_row list" pagination

record response =
  status :: nat
  json :: body

definition respond :: "nat \<Rightarrow> body \<Rightarrow> response" where
  "respond code b = \<lparr>status = code, json = b\<rparr>"

subsection \<open>The persistent store\<close>

record user =
  user_id :: string
  email :: string
  isPremium :: bool

record generation =
  gen_id :: string
  userId :: string
  feature :: string
  gen_input :: gen_input
  gen_output :: gen_output
  createdAt :: int

record db =
  users :: "user list"
  generationHistory :: "generation list"

text \<open>What a request did to its collaborators, in order.\<close>

datatype event =
    UserUpsert string
  | UserFindUnique string
  | GenerationCount string string int
  | GenerationCountAll string
  | GenerationCreate string string
  | GenerationFindMany string
  | ProviderCall string

definition user_findUnique :: "db \<Rightarrow> string \<Rightarrow> user option" where
  "user_findUnique d uid = find (\<lambda>u. user_id u = uid) (users d)"

definition user_upsert :: "db \<Rightarrow> string \<Rightarrow> string \<Rightarrow> db" where
  "user_upsert d uid mail =
     (case user_findUnique d uid of
        None \<Rightarrow> d\<lparr>users := users d @ [\<lparr>user_id = uid, email = mail, isPremium = False\<rparr>]\<rparr>
      | Some _ \<Rightarrow>
          d\<lparr>users := map (\<lambda>u. if user_id u = uid then u\<lparr>email := mail\<rparr> else u) (users d)\<rparr>)"

definition generation_count :: "db \<Rightarrow> string \<Rightarrow> string \<Rightarrow> int \<Rightarrow> nat" where
  "generation_count d uid f gte =
     length (filter (\<lambda>g. userId g = uid \<and> feature g = f \<and> gte \<le> createdAt g)
       (generationHistory d))"

definition generation_count_all :: "db \<Rightarrow> string \<Rightarrow> nat" where
  "generation_count_all d uid = length (filter (\<lambda>g. userId g = uid) (generationHistory d))"

text \<open>
  \<open>prisma.generationHistory.create\<close>: the store assigns the id (\<open>fresh\<close>) and the
  creation time (\<open>now\<close>); \<open>outcome\<close> is \<open>Some e\<close> when the store is unavailable and the
  call throws \<open>e\<close>.
\<close>

definition generation_create ::
  "js_error option \<Rightarrow> string \<Rightarrow> int \<Rightarrow> db \<Rightarrow> string \<Rightarrow> string \<Rightarrow> gen_input \<Rightarrow> gen_output
    \<Rightarrow> js_error + db" where
  "generation_create outcome fresh now d uid f i out =
     (case outcome of
        Some e \<Rightarrow> Inl e
      | None \<Rightarrow> Inr (d\<lparr>generationHistory := generationHistory d @
          [\<lparr>gen_id = fresh, userId = uid, feature = f, gen_input = i, gen_output = out,
            createdAt = now\<rparr>]\<rparr>))"

section \<open>The daily limit middleware (middleware/rateLimit.ts)\<close>

definition FREE_LIMITS :: "(string \<times> nat) list" where
  "FREE_LIMITS =
     [(''article-generator'', 10), (''image-generator'', 10), (''background-remover'', 10),
      (''resume-analyzer'', 10)]"

text \<open>
  \<open>FREE_LIMITS\<close> is an object literal, so a lookup by a name it does not own falls
  through to \<open>Object.prototype\<close>: these names yield a function or an object, every
  other unknown name yields \<open>undefined\<close>.
\<close>

definition object_prototype_keys :: "string list" where
  "object_prototype_keys =
     [''constructor'', ''__defineGetter__'', ''__defineSetter__'', ''hasOwnProperty'',
      ''__lookupGetter__'', ''__lookupSetter__'', ''isPrototypeOf'', ''propertyIsEnumerable'',
      ''toString'', ''valueOf'', ''__proto__'', ''toLocaleString'']"

text \<open>
  \<open>FREE_LIMITS[feature] ?? 0\<close>. \<open>Some n\<close> is the number \<open>n\<close>; \<open>None\<close> is an inherited
  non-numeric value, which \<open>??\<close> keeps because it is neither \<open>null\<close> nor \<open>undefined\<close>.
  In \<open>count >= limit\<close> such a value converts to NaN and the comparison is false.
\<close>

definition limit_of :: "string \<Rightarrow> nat option" where
  "limit_of f =
     (case map_of FREE_LIMITS f of
        Some n \<Rightarrow> Some n
      | None \<Rightarrow> if f \<in> set object_prototype_keys then None else Some 0)"

definition msPerDay :: int where
  "msPerDay = 86400000"

text \<open>\<open>d.setUTCHours(0, 0, 0, 0)\<close> on a time value in milliseconds since the epoch.\<close>

definition setUTCHours0 :: "int \<Rightarrow> int" where
  "setUTCHours0 t = (t div msPerDay) * msPerDay"

function string_of_nat :: "nat \<Rightarrow> string" where
  "string_of_nat n =
     (if n < 10 then [''0123456789'' ! n]
      else string_of_nat (n div 10) @ [''0123456789'' ! (n mod 10)])"
  by pat_completeness auto
termination
  by (relation "measure id") auto

declare string_of_nat.simps [simp del]

definition limit_message :: "nat \<Rightarrow> string \<Rightarrow> string" where
  "limit_message n f =
     ''Free limit of '' @ string_of_nat n @ '' per day reached for '' @ f @
     ''. Upgrade to Premium for unlimited access.''"

datatype mw_result = Next | Respond response

definition enforceDailyLimit :: "string \<Rightarrow> int \<Rightarrow> db \<Rightarrow> string \<Rightarrow> mw_result \<times> event list" where
  "enforceDailyLimit f now d uid =
     (case user_findUnique d uid of
        None \<Rightarrow> (Respond (respond 401 (ErrorJson ''User not found.'')), [UserFindUnique uid])
      | Some u \<Rightarrow>
          if isPremium u then (Next, [UserFindUnique uid])
          else
            let startOfDay = setUTCHours0 now;
                count = generation_count d uid f startOfDay;
                evs = [UserFindUnique uid, GenerationCount uid f startOfDay]
            in (case limit_of f of
                  None \<Rightarrow> (Next, evs)
                | Some n \<Rightarrow>
                    if n \<le> count
                    then (Respond (respond 429 (ErrorJson (limit_message n f))), evs)
                    else (Next, evs)))"

section \<open>Requests and the middleware before a handler\<close>

record upload =
  fieldname :: string
  originalname :: string
  mimetype :: string
  buffer :: bytes

text \<open>
  The parts of a request the routes read. \<open>query_limit\<close> and \<open>query_page\<close> are the
  values \<open>Number(req.query.limit)\<close> and \<open>Number(req.query.page)\<close> (NaN for an absent or
  non-numeric parameter); \<open>multipart_file\<close> is the file part of a multipart body, with the
  name of its form field; a body field is \<open>None\<close> when the body does not have it.
\<close>

record request =
  authorization :: "string option"
  body_prompt :: "utf16 option"
  body_style :: "utf16 option"
  body_size :: "utf16 option"
  multipart_file :: "upload option"
  query_limit :: js_num
  query_cursor :: "string option"
  query_page :: js_num

datatype 'a step = Continue 'a | Stop response

text \<open>
  \<open>requireAuth\<close> (middleware/clerkAuth.ts). \<open>verifyToken\<close> is the identity
  collaborator: it throws or returns the token's payload. \<open>payload_email\<close> is \<open>Some m\<close>
  when \<open>typeof payload.email === "string"\<close>.
\<close>

record token_payload =
  sub :: string
  payload_email :: "string option"

definition requireAuth ::
  "(string \<Rightarrow> js_error + token_payload) \<Rightarrow> db \<Rightarrow> request \<Rightarrow> string step \<times> db \<times> event list" where
  "requireAuth verifyToken d req =
     (case authorization req of
        None \<Rightarrow>
          (Stop (respond 401 (ErrorJson ''Missing or invalid Authorization header'')), d, [])
      | Some authHeader \<Rightarrow>
          if \<not> prefix ''Bearer '' authHeader
          then (Stop (respond 401 (ErrorJson ''Missing or invalid Authorization header'')), d, [])
          else
            let token = takeWhile (\<lambda>c. c \<noteq> CHR '' '') (drop 7 authHeader)
            in (case verifyToken token of
                  Inl e \<Rightarrow> (Stop (respond 401 (ErrorDetailJson ''Unauthorized'' (message e))), d, [])
                | Inr payload \<Rightarrow>
                    let uid = sub payload;
                        mail = (case payload_email payload of Some m \<Rightarrow> m | None \<Rightarrow> [])
                    in (Continue uid, user_upsert d uid mail, [UserUpsert uid])))"

text \<open>
  \<open>multer\<close>'s \<open>upload.single(field)\<close> with the route's \<open>fileFilter\<close> and
  \<open>limits.fileSize\<close>. A file under another field name is refused before the filter
  runs, and a file whose size reaches the limit is refused. A refused upload goes to
  the application's error handler, which answers 500 with the error's message.
\<close>

definition upload_single ::
  "string \<Rightarrow> string list \<Rightarrow> string \<Rightarrow> nat \<Rightarrow> request \<Rightarrow> upload option step" where
  "upload_single field allowed msg fileSize req =
     (case multipart_file req of
        None \<Rightarrow> Continue None
      | Some f \<Rightarrow>
          if fieldname f \<noteq> field then Stop (respond 500 (InternalErrorJson ''Unexpected field''))
          else if mimetype f \<notin> set allowed then Stop (respond 500 (InternalErrorJson msg))
          else if fileSize \<le> length (buffer f)
          then Stop (respond 500 (InternalErrorJson ''File too large''))
          else Continue (Some f))"

section \<open>The fallback loop of the routes\<close>

text \<open>
  The three generation routes carry the same loop over their candidate models:
  \<^verbatim>\<open>
  for (const modelConfig of models) {
    try { result = await Promise.race([providerPromise, timeoutPromise]); break; }
    catch (error) { lastError = error; if (<retryable error>) continue; break; }
  }
  if (!result) throw lastError || new Error("All models failed");
  \<close>
  They differ in the test that lets the loop continue, which is the parameter \<open>retry\<close>.
  \<open>name\<close> reads a candidate's model identifier and \<open>call\<close> is the environment's
  answer to the race for that candidate.
\<close>

record 'r loop_state =
  result :: "'r option"
  lastError :: "js_error option"
  tried :: "string list"

definition loop_init :: "'r loop_state" where
  "loop_init = \<lparr>result = None, lastError = None, tried = []\<rparr>"

fun try_models ::
  "(js_error \<Rightarrow> bool) \<Rightarrow> ('c \<Rightarrow> string) \<Rightarrow> ('c \<Rightarrow> 'r settled) \<Rightarrow> 'c list \<Rightarrow> 'r loop_state
    \<Rightarrow> 'r loop_state" where
  "try_models retry name call [] st = st"
| "try_models retry name call (c # cs) st =
     (case race (call c) of
        Inr r \<Rightarrow> st\<lparr>result := Some r, tried := tried st @ [name c]\<rparr>
      | Inl e \<Rightarrow>
          let st' = st\<lparr>lastError := Some e, tried := tried st @ [name c]\<rparr>
          in if retry e then try_models retry name call cs st' else st')"

definition after_loop :: "('r \<Rightarrow> bool) \<Rightarrow> 'r loop_state \<Rightarrow> js_error + 'r" where
  "after_loop truthy st =
     (let thrown = (case lastError st of Some e \<Rightarrow> e | None \<Rightarrow> new_Error ''All models failed'')
      in case result st of
           None \<Rightarrow> Inl thrown
         | Some r \<Rightarrow> if truthy r then Inr r else Inl thrown)"

text \<open>
  image.ts and resume.ts:
  \<open>error.message === "Request timeout" || error?.response?.status === 402\<close>;
  bgRemove.ts: \<open>error?.response?.status === 402\<close>.
\<close>

definition timeout_or_credit :: "js_error \<Rightarrow> bool" where
  "timeout_or_credit e \<longleftrightarrow> message e = ''Request timeout'' \<or> response_status e = Some 402"

definition credit_only :: "js_error \<Rightarrow> bool" where
  "credit_only e \<longleftrightarrow> response_status e = Some 402"

record model_config =
  model :: string
  timeout :: nat

section \<open>The environment of a request\<close>

text \<open>
  Everything a route obtains from outside the repository: the identity collaborator,
  the clock, the inference provider (one race outcome per candidate and input), the
  image and PDF libraries, base64 coding, and whether the store accepts a new
  record. Reads of the store are taken to succeed.
\<close>

datatype image_response =
    IFalsy
  | IString string
  | IBlob bytes
  | IArrayBuffer bytes
  | IObject (resp_data: "string option") (resp_buffer: "bytes option")
      (resp_base64: "string option") (resp_image: "string option")

datatype seg_item =
    ItemString string
  | ItemObject (item_mask: "string option") (item_image: "string option")

datatype seg_response =
    SegFalsy
  | SegString string
  | SegBlob bytes
  | SegObject (seg_mask: "string option") (seg_image: "string option")
      (seg_zero: "seg_item option") (seg_long_base64: "string option")

datatype chat_message = ChatMessage (content: "string option")
datatype chat_choice = ChatChoice (choice_message: "chat_message option")
datatype chat_completion = NoCompletion | ChatCompletion (choices: "chat_choice list option")

record world =
  verifyToken :: "string \<Rightarrow> js_error + token_payload"
  clock :: int
  store_clock :: int
  store_failure :: "js_error option"
  fresh_id :: string
  toBase64 :: "bytes \<Rightarrow> string"
  fromBase64 :: "string \<Rightarrow> bytes"
  textToImage :: "model_config \<Rightarrow> utf16 \<Rightarrow> image_response settled"
  imageSegmentation :: "string \<Rightarrow> bytes \<Rightarrow> seg_response settled"
  chatCompletion :: "model_config \<Rightarrow> utf16 \<Rightarrow> chat_completion settled"
  sharp_compress :: "bytes \<Rightarrow> js_error + bytes"
  sharp_composite :: "bytes \<Rightarrow> bytes \<Rightarrow> js_error + bytes"
  extractTextFromPdf :: "bytes \<Rightarrow> js_error + utf16"

definition create_record ::
  "world \<Rightarrow> db \<Rightarrow> string \<Rightarrow> string \<Rightarrow> gen_input \<Rightarrow> gen_output \<Rightarrow> js_error + db" where
  "create_record w d uid f i out =
     generation_create (store_failure w) (fresh_id w) (store_clock w) d uid f i out"

section \<open>Image generation (routes/image.ts)\<close>

definition truthy_str :: "'a list option \<Rightarrow> bool" where
  "truthy_str s = (case s of None \<Rightarrow> False | Some t \<Rightarrow> t \<noteq> [])"

definition append_if :: "utf16 \<Rightarrow> string \<Rightarrow> utf16 option \<Rightarrow> utf16" where
  "append_if full label v =
     (case v of None \<Rightarrow> full | Some t \<Rightarrow> if t = [] then full else full @ utf16_of label @ t)"

definition buildFullPrompt :: "utf16 \<Rightarrow> utf16 option \<Rightarrow> utf16 option \<Rightarrow> utf16" where
  "buildFullPrompt p st sz =
     (let full = trim p;
          full = append_if full '', style: '' st;
          full = append_if full '', size: '' sz
      in full)"

definition convertToBase64 :: "(bytes \<Rightarrow> string) \<Rightarrow> image_response \<Rightarrow> js_error + string" where
  "convertToBase64 enc r =
     (case r of
        IString s \<Rightarrow> Inr s
      | IBlob b \<Rightarrow> Inr (enc b)
      | IArrayBuffer b \<Rightarrow> Inr (enc b)
      | IObject d b b64 img \<Rightarrow>
          (case d of Some s \<Rightarrow> Inr s | None \<Rightarrow>
          (case b of Some x \<Rightarrow> Inr (enc x) | None \<Rightarrow>
          (case b64 of Some s \<Rightarrow> Inr s | None \<Rightarrow>
          (case img of Some s \<Rightarrow> Inr s | None \<Rightarrow>
             Inl (new_Error ''Unsupported response format from HuggingFace API'')))))
      | IFalsy \<Rightarrow> Inl (new_Error ''Unsupported response format from HuggingFace API''))"

definition truthy_image :: "image_response \<Rightarrow> bool" where
  "truthy_image r \<longleftrightarrow> r \<noteq> IFalsy \<and> r \<noteq> IString []"

definition image_models :: "model_config list" where
  "image_models =
     [\<lparr>model = ''black-forest-labs/FLUX.1-dev'', timeout = 90000\<rparr>,
      \<lparr>model = ''stabilityai/stable-diffusion-xl-base-1.0'', timeout = 75000\<rparr>,
      \<lparr>model = ''runwayml/stable-diffusion-v1-5'', timeout = 60000\<rparr>]"

definition image_failure :: "js_error \<Rightarrow> response" where
  "image_failure err =
     respond 500 (ErrorJson
       (if message err = ''Request timeout'' then ''Image generation timed out. Please try again.''
        else if response_status err = Some 429 then ''Rate limit exceeded. Please try again later.''
        else if sublist ''Unsupported response format'' (message err)
        then ''Image generation service temporarily unavailable.''
        else ''Image generation failed''))"

definition image_loop :: "world \<Rightarrow> utf16 \<Rightarrow> image_response loop_state" where
  "image_loop w fullPrompt =
     try_models timeout_or_credit model (\<lambda>c. textToImage w c fullPrompt) image_models loop_init"

text \<open>The body of the outer \<open>try\<close>, up to the base64 string that is stored and returned.\<close>

definition image_generate :: "world \<Rightarrow> utf16 \<Rightarrow> (js_error + string) \<times> event list" where
  "image_generate w fullPrompt =
     (let st = image_loop w fullPrompt;
          calls = map ProviderCall (tried st)
      in case after_loop truthy_image st of
           Inl e \<Rightarrow> (Inl e, calls)
         | Inr imageResponse \<Rightarrow>
             (case convertToBase64 (toBase64 w) imageResponse of
                Inl e \<Rightarrow> (Inl e, calls)
              | Inr imageBase64 \<Rightarrow>
                  if imageBase64 = []
                  then (Inl (new_Error ''Empty or invalid image data received''), calls)
                  else (Inr imageBase64, calls)))"

definition image_handler ::
  "world \<Rightarrow> db \<Rightarrow> request \<Rightarrow> string option \<Rightarrow> response \<times> db \<times> event list" where
  "image_handler w d req auth_userId =
     (case (if truthy_str auth_userId then auth_userId else None) of
        None \<Rightarrow> (respond 401 (ErrorJson ''Unauthorized: No user ID''), d, [])
      | Some uid \<Rightarrow>
          (case (if truthy_str (body_prompt req) then body_prompt req else None) of
             None \<Rightarrow> (respond 400 (ErrorJson ''Prompt must be at least 3 characters.''), d, [])
           | Some p \<Rightarrow>
               if length (trim p) < 3
               then (respond 400 (ErrorJson ''Prompt must be at least 3 characters.''), d, [])
               else
                 (let fullPrompt = buildFullPrompt p (body_style req) (body_size req)
                  in (case image_generate w fullPrompt of
                      (Inl err, calls) \<Rightarrow> (image_failure err, d, calls)
                    | (Inr imageBase64, calls) \<Rightarrow>
                        (case create_record w d uid ''image-generator''
                                (ImageInput p (body_style req) (body_size req))
                                (ImageOutput imageBase64) of
                           Inl err \<Rightarrow>
                             (image_failure err, d,
                              calls @ [GenerationCreate uid ''image-generator''])
                         | Inr d' \<Rightarrow>
                             (respond 200 (ImageJson imageBase64), d',
                              calls @ [GenerationCreate uid ''image-generator'']))))))"

text \<open>
  \<open>router.post("/", requireAuth, enforceDailyLimit("image-generator"), handler)\<close>:
  the middleware run in the order in which they are listed.
\<close>

definition image_route :: "world \<Rightarrow> db \<Rightarrow> request \<Rightarrow> response \<times> db \<times> event list" where
  "image_route w d req =
     (case requireAuth (verifyToken w) d req of
        (Stop r, d1, ev1) \<Rightarrow> (r, d1, ev1)
      | (Continue uid, d1, ev1) \<Rightarrow>
          (case enforceDailyLimit ''image-generator'' (clock w) d1 uid of
             (Respond r, ev2) \<Rightarrow> (r, d1, ev1 @ ev2)
           | (Next, ev2) \<Rightarrow>
               (case image_handler w d1 req (Some uid) of
                  (r, d2, ev3) \<Rightarrow> (r, d2, ev1 @ ev2 @ ev3))))"

section \<open>Background removal (routes/bgRemove.ts)\<close>

definition bg_models :: "string list" where
  "bg_models = [''briaai/RMBG-2.0'', ''CIDAS/clipseg-rd64-refined'', ''rembg/rembg'']"

text \<open>\<open>s.replace(/^data:image\/[^;]+;base64,/, '')\<close>\<close>

definition strip_data_uri :: "string \<Rightarrow> string" where
  "strip_data_uri s =
     (if prefix ''data:image/'' s
      then
        let rest = drop 11 s;
            mime = takeWhile (\<lambda>c. c \<noteq> CHR '';'') rest;
            after = drop (length mime) rest
        in if mime \<noteq> [] \<and> prefix '';base64,'' after then drop 8 after else s
      else s)"

definition truthy_seg :: "seg_response \<Rightarrow> bool" where
  "truthy_seg r \<longleftrightarrow> r \<noteq> SegFalsy \<and> r \<noteq> SegString []"

text \<open>
  Step 3 of the handler. \<open>seg_long_base64\<close> stands for the first match of
  \<open>/"([A-Za-z0-9+/=]{100,})"/\<close> in \<open>JSON.stringify(maskResult)\<close>.
\<close>

definition extract_mask :: "(bytes \<Rightarrow> string) \<Rightarrow> seg_response \<Rightarrow> js_error + string" where
  "extract_mask enc r =
     (case r of
        SegBlob b \<Rightarrow> Inr (enc b)
      | SegString s \<Rightarrow> Inr (strip_data_uri s)
      | SegObject m i z l \<Rightarrow>
          (case (if truthy_str m then m else None) of Some s \<Rightarrow> Inr (strip_data_uri s) | None \<Rightarrow>
          (case (if truthy_str i then i else None) of Some s \<Rightarrow> Inr (strip_data_uri s) | None \<Rightarrow>
          (case (if z = Some (ItemString []) then None else z) of
             Some (ItemString s) \<Rightarrow> Inr (strip_data_uri s)
           | Some (ItemObject im ii) \<Rightarrow>
               (case (if truthy_str im then im else None) of
                  Some s \<Rightarrow> Inr (strip_data_uri s)
                | None \<Rightarrow>
               (case (if truthy_str ii then ii else None) of
                  Some s \<Rightarrow> Inr (strip_data_uri s)
                | None \<Rightarrow> Inl (new_Error ''Could not extract mask from numeric key response'')))
           | None \<Rightarrow>
               (case l of
                  Some b64 \<Rightarrow> Inr b64
                | None \<Rightarrow> Inl (new_Error ''Could not extract mask from segmentation result'')))))
      | SegFalsy \<Rightarrow> Inl (new_Error ''Could not extract mask from segmentation result''))"

definition bg_failure :: "js_error \<Rightarrow> response" where
  "bg_failure err =
     respond 500 (ErrorJson
       (if message err = ''Request timeout'' then ''Image processing timed out. Please try again.''
        else if response_status err = Some 429 then ''Rate limit exceeded. Please try again later.''
        else ''Failed to process image.''))"

definition bg_loop :: "world \<Rightarrow> bytes \<Rightarrow> seg_response loop_state" where
  "bg_loop w compressedBuffer =
     try_models credit_only (\<lambda>m. m) (\<lambda>m. imageSegmentation w m compressedBuffer) bg_models
       loop_init"

definition bg_process :: "world \<Rightarrow> upload \<Rightarrow> (js_error + string) \<times> event list" where
  "bg_process w f =
     (case sharp_compress w (buffer f) of
        Inl e \<Rightarrow> (Inl e, [])
      | Inr compressedBuffer \<Rightarrow>
          (let st = bg_loop w compressedBuffer;
               calls = map ProviderCall (tried st)
           in (case after_loop truthy_seg st of
               Inl e \<Rightarrow> (Inl e, calls)
             | Inr maskResult \<Rightarrow>
                 (case extract_mask (toBase64 w) maskResult of
                    Inl e \<Rightarrow> (Inl e, calls)
                  | Inr maskBase64 \<Rightarrow>
                      (case sharp_composite w (buffer f) (fromBase64 w maskBase64) of
                         Inl e \<Rightarrow> (Inl e, calls)
                       | Inr outputBuffer \<Rightarrow> (Inr (toBase64 w outputBuffer), calls))))))"

definition bg_handler ::
  "world \<Rightarrow> db \<Rightarrow> upload option \<Rightarrow> string option \<Rightarrow> response \<times> db \<times> event list" where
  "bg_handler w d file auth_userId =
     (case (if truthy_str auth_userId then auth_userId else None) of
        None \<Rightarrow> (respond 401 (ErrorJson ''Unauthorized. Missing user ID.''), d, [])
      | Some uid \<Rightarrow>
          (case file of
             None \<Rightarrow> (respond 422 (ErrorJson ''Image file is required.''), d, [])
           | Some f \<Rightarrow>
               (case bg_process w f of
                  (Inl err, calls) \<Rightarrow> (bg_failure err, d, calls)
                | (Inr resultBase64, calls) \<Rightarrow>
                    (case create_record w d uid ''background-remover''
                            (FileInput (originalname f)) (ImageOutput resultBase64) of
                       Inl err \<Rightarrow>
                         (bg_failure err, d,
                          calls @ [GenerationCreate uid ''background-remover''])
                     | Inr d' \<Rightarrow>
                         (respond 200 (ImageJson resultBase64), d',
                          calls @ [GenerationCreate uid ''background-remover'']))))) "

definition bg_route :: "world \<Rightarrow> db \<Rightarrow> request \<Rightarrow> response \<times> db \<times> event list" where
  "bg_route w d req =
     (case requireAuth (verifyToken w) d req of
        (Stop r, d1, ev1) \<Rightarrow> (r, d1, ev1)
      | (Continue uid, d1, ev1) \<Rightarrow>
          (case enforceDailyLimit ''background-remover'' (clock w) d1 uid of
             (Respond r, ev2) \<Rightarrow> (r, d1, ev1 @ ev2)
           | (Next, ev2) \<Rightarrow>
               (case upload_single ''image'' [''image/jpeg'', ''image/png'']
                       ''Only JPG/PNG images are allowed.'' (10 * 1024 * 1024) req of
                  Stop r \<Rightarrow> (r, d1, ev1 @ ev2)
                | Continue file \<Rightarrow>
                    (case bg_handler w d1 file (Some uid) of
                       (r, d2, ev3) \<Rightarrow> (r, d2, ev1 @ ev2 @ ev3)))))"

subsection \<open>The canvas of the composited image\<close>

text \<open>
  Step 5 of the handler is one call chain of the image library, whose code is not in
  the repository: \<open>sharp(originalBuffer).resize(1024, 1024, { fit: 'inside',
  withoutEnlargement: true }).joinChannel(maskBuffer).png()\<close> (bgRemove.ts, lines 159
  to 166). The source fixes the box of 1024 by 1024, the two options, and that the
  mask is joined after the resize; it does not look at the size of the mask, which
  is whatever the provider returned. The handler above takes the library's result
  from the environment (\<open>sharp_composite\<close>); the definitions below give the width and
  height of that result from the width and height of the original and of the mask.
\<close>





section \<open>Resume analysis (routes/resume.ts)\<close>

text \<open>
  Two of the route's messages open with a pictograph (U+1F4CE and U+274C); the strings
  give them in UTF-8, as the response carries them.
\<close>

definition paperclip :: string where
  "paperclip = [CHR 0xF0, CHR 0x9F, CHR 0x93, CHR 0x8E]"

definition cross_mark :: string where
  "cross_mark = [CHR 0xE2, CHR 0x9D, CHR 0x8C]"

definition resume_models :: "model_config list" where
  "resume_models =
     [\<lparr>model = ''deepseek-ai/DeepSeek-R1-0528'', timeout = 45000\<rparr>,
      \<lparr>model = ''meta-llama/Llama-3.1-8B-Instruct'', timeout = 40000\<rparr>,
      \<lparr>model = ''microsoft/DialoGPT-medium'', timeout = 35000\<rparr>]"

definition truthy_completion :: "chat_completion \<Rightarrow> bool" where
  "truthy_completion c \<longleftrightarrow> c \<noteq> NoCompletion"

text \<open>\<open>completion.choices?.[0]?.message?.content\<close>\<close>

definition message_content :: "chat_completion \<Rightarrow> string option" where
  "message_content c =
     (case c of
        ChatCompletion (Some (ChatChoice (Some (ChatMessage s)) # _)) \<Rightarrow> s
      | _ \<Rightarrow> None)"

text \<open>\<open>completion.choices?.[0]?.message?.content || "No analysis returned."\<close>\<close>

definition analysis_of :: "chat_completion \<Rightarrow> string" where
  "analysis_of c =
     (case message_content c of
        None \<Rightarrow> ''No analysis returned.''
      | Some s \<Rightarrow> if s = [] then ''No analysis returned.'' else s)"

definition resume_failure :: "js_error \<Rightarrow> response" where
  "resume_failure err =
     respond 500 (ErrorJson
       (if message err = ''Request timeout'' then ''Resume analysis timed out. Please try again.''
        else if response_status err = Some 429 then ''Rate limit exceeded. Please try again later.''
        else ''Resume analysis failed. Try again later.''))"

definition resume_loop :: "world \<Rightarrow> utf16 \<Rightarrow> chat_completion loop_state" where
  "resume_loop w resumeText =
     try_models timeout_or_credit model (\<lambda>c. chatCompletion w c resumeText) resume_models
       loop_init"

definition resume_handler ::
  "world \<Rightarrow> db \<Rightarrow> upload option \<Rightarrow> string option \<Rightarrow> response \<times> db \<times> event list" where
  "resume_handler w d file auth_userId =
     (case file of
        None \<Rightarrow> (respond 400 (ErrorJson (paperclip @ '' No file uploaded.'')), d, [])
      | Some f \<Rightarrow>
          (case extractTextFromPdf w (buffer f) of
             Inl err \<Rightarrow> (resume_failure err, d, [])
           | Inr resumeText \<Rightarrow>
               if resumeText = [] \<or> length resumeText < 100
               then (respond 400
                       (ErrorJson (cross_mark @
                          '' Resume too short or empty. Please upload a valid resume.'')),
                     d, [])
               else
                 (let st = resume_loop w resumeText;
                      calls = map ProviderCall (tried st)
                  in (case after_loop truthy_completion st of
                      Inl err \<Rightarrow> (resume_failure err, d, calls)
                    | Inr completion \<Rightarrow>
                        (let analysis = analysis_of completion
                         in (case (if truthy_str auth_userId then auth_userId else None) of
                             None \<Rightarrow>
                               (respond 401 (ErrorJson ''User ID not found in auth context''),
                                d, calls)
                           | Some uid \<Rightarrow>
                               (case create_record w d uid ''resume-analyzer''
                                       (FileInput (originalname f)) (AnalysisOutput analysis) of
                                  Inl err \<Rightarrow>
                                    (resume_failure err, d,
                                     calls @ [GenerationCreate uid ''resume-analyzer''])
                                | Inr d' \<Rightarrow>
                                    (respond 200 (AnalysisJson analysis), d',
                                     calls @ [GenerationCreate uid ''resume-analyzer'']))))))))"

definition resume_route :: "world \<Rightarrow> db \<Rightarrow> request \<Rightarrow> response \<times> db \<times> event list" where
  "resume_route w d req =
     (case requireAuth (verifyToken w) d req of
        (Stop r, d1, ev1) \<Rightarrow> (r, d1, ev1)
      | (Continue uid, d1, ev1) \<Rightarrow>
          (case enforceDailyLimit ''resume-analyzer'' (clock w) d1 uid of
             (Respond r, ev2) \<Rightarrow> (r, d1, ev1 @ ev2)
           | (Next, ev2) \<Rightarrow>
               (case upload_single ''file'' [''application/pdf''] ''Only PDF files are allowed.''
                       (5 * 1024 * 1024) req of
                  Stop r \<Rightarrow> (r, d1, ev1 @ ev2)
                | Continue file \<Rightarrow>
                    (case resume_handler w d1 file (Some uid) of
                       (r, d2, ev3) \<Rightarrow> (r, d2, ev1 @ ev2 @ ev3)))))"

section \<open>History listing (routes/history.ts)\<close>

text \<open>JavaScript numbers as far as the handler computes with them.\<close>

definition js_falsy :: "js_num \<Rightarrow> bool" where
  "js_falsy x \<longleftrightarrow> x = NaN \<or> x = Num 0"

definition js_or :: "js_num \<Rightarrow> js_num \<Rightarrow> js_num" where
  "js_or x y = (if js_falsy x then y else x)"

fun js_le :: "js_num \<Rightarrow> js_num \<Rightarrow> bool" where
  "js_le NaN _ = False"
| "js_le _ NaN = False"
| "js_le NegInfinity _ = True"
| "js_le _ PosInfinity = True"
| "js_le (Num a) (Num b) = (a \<le> b)"
| "js_le _ _ = False"

definition Math_min :: "js_num \<Rightarrow> js_num \<Rightarrow> js_num" where
  "Math_min a b = (if a = NaN \<or> b = NaN then NaN else if js_le a b then a else b)"

definition Math_max :: "js_num \<Rightarrow> js_num \<Rightarrow> js_num" where
  "Math_max a b = (if a = NaN \<or> b = NaN then NaN else if js_le a b then b else a)"

definition js_gt :: "js_num \<Rightarrow> js_num \<Rightarrow> bool" where
  "js_gt a b \<longleftrightarrow> a \<noteq> NaN \<and> b \<noteq> NaN \<and> \<not> js_le a b"

text \<open>
  Modelled from the spec: the persistence collaborator's \<open>listGenerations\<close>, which the
  handler reaches as \<open>prisma.generationHistory.findMany\<close> and whose code is not in the
  repository. The spec gives it as "ordered sequence of GenerationRecord (descending by
  creation time; cursor-based, cursor = last-seen record id)". The rows of the user are
  put in descending order of \<open>createdAt\<close>; a cursor positions the page at the record
  with that id, \<open>skip\<close> drops rows from there, and \<open>take\<close> bounds the page. \<open>take\<close> must be
  an integer; a negative one pages backwards from the end or from the cursor.
\<close>

definition user_rows_desc :: "db \<Rightarrow> string \<Rightarrow> generation list" where
  "user_rows_desc d uid =
     sort_key (\<lambda>g. - createdAt g) (filter (\<lambda>g. userId g = uid) (generationHistory d))"

text \<open>
  Modelled from the spec: \<open>prisma.generationHistory.findMany\<close> with the arguments the
  handler builds (\<open>where: { userId }\<close>, \<open>orderBy: { createdAt: "desc" }\<close>, \<open>cursor\<close>,
  \<open>skip\<close>, \<open>take\<close>), on the rows above.
\<close>

definition generation_findMany ::
  "db \<Rightarrow> string \<Rightarrow> string option \<Rightarrow> nat \<Rightarrow> js_num \<Rightarrow> js_error + generation list" where
  "generation_findMany d uid cursor skip tk =
     (case tk of
        Num r \<Rightarrow>
          if r \<in> \<int> then
            let rows = user_rows_desc d uid;
                dir = (if 0 \<le> r then rows else rev rows);
                start = (case cursor of
                           None \<Rightarrow> dir
                         | Some c \<Rightarrow> dropWhile (\<lambda>g. gen_id g \<noteq> c) dir);
                page = take (nat \<lfloor>\<bar>r\<bar>\<rfloor>) (drop skip start)
            in Inr (if 0 \<le> r then page else rev page)
          else Inl (new_Error ''Argument take: expected Int'')
      | _ \<Rightarrow> Inl (new_Error ''Argument take: expected Int''))"

definition select_row :: "generation \<Rightarrow> history_row" where
  "select_row g =
     \<lparr>row_id = gen_id g, row_feature = feature g, row_input = gen_input g,
      row_output = gen_output g, row_createdAt = createdAt g\<rparr>"

definition page_limit :: "request \<Rightarrow> js_num" where
  "page_limit req = Math_min (js_or (query_limit req) (Num 20)) (Num 50)"

definition page_cursor :: "request \<Rightarrow> string option" where
  "page_cursor req = (if truthy_str (query_cursor req) then query_cursor req else None)"

definition history_handler :: "db \<Rightarrow> request \<Rightarrow> string \<Rightarrow> response \<times> event list" where
  "history_handler d req uid =
     (let lim = page_limit req;
          cursor = page_cursor req;
          page = Math_max (js_or (query_page req) (Num 1)) (Num 1)
      in case generation_findMany d uid cursor (if cursor = None then 0 else 1) lim of
           Inl err \<Rightarrow>
             (respond 500 (ErrorDetailJson ''Failed to fetch history'' (message err)),
              [GenerationFindMany uid])
         | Inr history \<Rightarrow>
             (respond 200 (HistoryJson (map select_row history)
                \<lparr>currentPage = page,
                 totalCount = generation_count_all d uid,
                 hasNextPage = (Num (of_nat (length history)) = lim),
                 hasPreviousPage = js_gt page (Num 1),
                 nextCursor = (if history = [] then None else Some (gen_id (last history))),
                 limit = lim\<rparr>),
              [GenerationFindMany uid, GenerationCountAll uid]))"

definition history_route :: "world \<Rightarrow> db \<Rightarrow> request \<Rightarrow> response \<times> db \<times> event list" where
  "history_route w d req =
     (case requireAuth (verifyToken w) d req of
        (Stop r, d1, ev1) \<Rightarrow> (r, d1, ev1)
      | (Continue uid, d1, ev1) \<Rightarrow>
          (case history_handler d1 req uid of (r, ev2) \<Rightarrow> (r, d1, ev1 @ ev2)))"

section \<open>Notions used to state the properties\<close>

text \<open>The number of the UTC day a time value falls in.\<close>

definition utc_day :: "int \<Rightarrow> int" where
  "utc_day t = t div msPerDay"

text \<open>
  The user's records of a feature created since the start of the current UTC day:
  those whose creation time lies in the day of \<open>now\<close> or in a later one.
\<close>

definition usage_today :: "db \<Rightarrow> string \<Rightarrow> string \<Rightarrow> int \<Rightarrow> nat" where
  "usage_today d uid f now =
     length (filter (\<lambda>g. userId g = uid \<and> feature g = f \<and> utc_day now \<le> utc_day (createdAt g))
       (generationHistory d))"

text \<open>The models a request called, read off its events.\<close>

definition provider_calls :: "event list \<Rightarrow> string list" where
  "provider_calls evs = concat (map (\<lambda>ev. case ev of ProviderCall m \<Rightarrow> [m] | _ \<Rightarrow> []) evs)"

text \<open>How many candidates the loop of a route tries.\<close>

fun attempts :: "(js_error \<Rightarrow> bool) \<Rightarrow> ('c \<Rightarrow> 'r settled) \<Rightarrow> 'c list \<Rightarrow> nat" where
  "attempts retry call [] = 0"
| "attempts retry call (c # cs) =
     (case race (call c) of
        Inr r \<Rightarrow> 1
      | Inl e \<Rightarrow> if retry e then Suc (attempts retry call cs) else 1)"

text \<open>A prompt that is absent, or shorter than three code units once trimmed.\<close>

definition short_prompt :: "request \<Rightarrow> bool" where
  "short_prompt req = (case body_prompt req of None \<Rightarrow> True | Some p \<Rightarrow> length (trim p) < 3)"

section \<open>Sample data\<close>

definition free_user :: user where
  "free_user = \<lparr>user_id = ''u1'', email = ''free@example.org'', isPremium = False\<rparr>"

definition premium_user :: user where
  "premium_user = \<lparr>user_id = ''u2'', email = ''paid@example.org'', isPremium = True\<rparr>"

definition sample_record :: "string \<Rightarrow> string \<Rightarrow> nat \<Rightarrow> generation" where
  "sample_record uid f i =
     \<lparr>gen_id = ''g'' @ string_of_nat i, userId = uid, feature = f,
      gen_input = FileInput ''in.png'', gen_output = ImageOutput ''AAAA'',
      createdAt = 1699920000000 + 1000 * int i\<rparr>"

text \<open>
  Both users; the free user has the records numbered \<open>ids\<close> of feature \<open>f\<close>, the
  premium user two more, all created on the UTC day 2023-11-14, which begins at
  1699920000000.
\<close>

definition sample_db :: "string \<Rightarrow> nat list \<Rightarrow> db" where
  "sample_db f ids =
     \<lparr>users = [free_user, premium_user],
      generationHistory =
        map (sample_record ''u1'' f) ids @ map (sample_record ''u2'' f) [20, 21]\<rparr>"

definition ten_ids :: "nat list" where
  "ten_ids = [0, 1, 2, 3, 4, 5, 6, 7, 8, 9]"

text \<open>
  A world at 22:13:20 UTC of that day, in which the token \<open>tok1\<close> belongs to the free
  user and \<open>tok2\<close> to the premium one, every provider call succeeds at once and the
  store is available.
\<close>

definition sample_world :: world where
  "sample_world =
     \<lparr>verifyToken = (\<lambda>t.
        if t = ''tok1'' then Inr \<lparr>sub = ''u1'', payload_email = Some ''free@example.org''\<rparr>
        else if t = ''tok2'' then Inr \<lparr>sub = ''u2'', payload_email = Some ''paid@example.org''\<rparr>
        else Inl (new_Error ''invalid token'')),
      clock = 1700000000000,
      store_clock = 1700000000500,
      store_failure = None,
      fresh_id = ''g-new'',
      toBase64 = (\<lambda>b. replicate (length b) CHR ''A''),
      fromBase64 = (\<lambda>s. map of_char s),
      textToImage = (\<lambda>c p. CallResolved (IString ''aW1hZ2U='')),
      imageSegmentation = (\<lambda>m b. CallResolved (SegString ''data:image/png;base64,bWFzaw=='')),
      chatCompletion = (\<lambda>c t.
        CallResolved (ChatCompletion (Some [ChatChoice (Some (ChatMessage (Some ''Solid resume.'')))]))),
      sharp_compress = (\<lambda>b. Inr b),
      sharp_composite = (\<lambda>b m. Inr (b @ m)),
      extractTextFromPdf = (\<lambda>b. Inr b)\<rparr>"

definition sample_request :: "string \<Rightarrow> request" where
  "sample_request tok =
     \<lparr>authorization = Some (''Bearer '' @ tok),
      body_prompt = None, body_style = None, body_size = None,
      multipart_file = None,
      query_limit = NaN, query_cursor = None, query_page = NaN\<rparr>"

text \<open>
  Worlds in which the first candidate of a route loses the race against the timer,
  or fails with a status the loop does not retry, while the next one would succeed.
\<close>

definition timeout_world :: world where
  "timeout_world = sample_world
     \<lparr>textToImage := (\<lambda>c p.
        if model c = ''black-forest-labs/FLUX.1-dev'' then TimerFired
        else CallResolved (IString ''aW1hZ2U='')),
      imageSegmentation := (\<lambda>m b.
        if m = ''briaai/RMBG-2.0'' then TimerFired
        else CallResolved (SegString ''data:image/png;base64,bWFzaw==''))\<rparr>"

definition fatal_world :: world where
  "fatal_world = sample_world
     \<lparr>textToImage := (\<lambda>c p.
        if model c = ''black-forest-labs/FLUX.1-dev''
        then CallRejected (JsError ''Invalid inputs'' (Some 400))
        else CallResolved (IString ''aW1hZ2U=''))\<rparr>"

definition sample_upload :: upload where
  "sample_upload =
     \<lparr>fieldname = ''image'', originalname = ''cat.png'', mimetype = ''image/png'',
      buffer = [137, 80, 78, 71]\<rparr>"

text \<open>
  A world whose store refuses the new record, a world whose chat provider returns a
  completion without choices, and an uploaded PDF with 120 characters of text.
\<close>

definition store_down_world :: world where
  "store_down_world = sample_world\<lparr>store_failure := Some (new_Error ''Connection refused'')\<rparr>"

definition no_choices_world :: world where
  "no_choices_world = sample_world\<lparr>chatCompletion := (\<lambda>c t. CallResolved (ChatCompletion (Some [])))\<rparr>"

definition sample_pdf :: upload where
  "sample_pdf =
     \<lparr>fieldname = ''file'', originalname = ''cv.pdf'', mimetype = ''application/pdf'',
      buffer = replicate 120 65\<rparr>"

text \<open>
  History requests of the free user: page size 2 after the record \<open>g3\<close>, and a
  requested page size of 0.
\<close>

definition five_ids :: "nat list" where
  "five_ids = [0, 1, 2, 3, 4]"

definition paged_request :: request where
  "paged_request = (sample_request ''tok1'')\<lparr>query_limit := Num 2, query_cursor := Some ''g3''\<rparr>"

definition zero_limit_request :: request where
  "zero_limit_request = (sample_request ''tok1'')\<lparr>query_limit := Num 0\<rparr>"

section \<open>The daily limit\<close>

lemma limit_of_table: "(f, n) \<in> set FREE_LIMITS \<Longrightarrow> limit_of f = Some n"
  by (auto simp: FREE_LIMITS_def limit_of_def)

lemma limit_of_unknown:
  assumes "f \<notin> fst ` set FREE_LIMITS" and k: "f \<notin> set object_prototype_keys"
  shows "limit_of f = Some 0"
proof -
  from assms have "map_of FREE_LIMITS f = None" by (simp add: map_of_eq_None_iff)
  with k show ?thesis by (simp add: limit_of_def)
qed

lemma enforce_nonpremium:
  "user_findUnique d uid = Some u \<Longrightarrow> \<not> isPremium u \<Longrightarrow> limit_of f = Some n \<Longrightarrow>
   enforceDailyLimit f now d uid =
     (if n \<le> generation_count d uid f (setUTCHours0 now)
      then Respond (respond 429 (ErrorJson (limit_message n f))) else Next,
      [UserFindUnique uid, GenerationCount uid f (setUTCHours0 now)])"
  by (simp add: enforceDailyLimit_def Let_def)

text \<open>
  C4. A user whose \<open>isPremium\<close> flag is true is admitted by the daily limit check
  whatever generation records the store holds: the middleware calls \<open>next()\<close> after
  the user lookup alone, and no count of generations is issued.
\<close>

theorem C4_premium_admitted:
  "user_findUnique d uid = Some u \<Longrightarrow> isPremium u \<Longrightarrow>
   enforceDailyLimit f now (d\<lparr>generationHistory := gens\<rparr>) uid = (Next, [UserFindUnique uid])"
  by (simp add: enforceDailyLimit_def user_findUnique_def)

theorem C4_premium_admitted_witness:
  "user_findUnique (sample_db ''image-generator'' []) ''u2'' = Some premium_user \<and>
   isPremium premium_user \<and>
   enforceDailyLimit ''image-generator'' 1700000000000
     ((sample_db ''image-generator'' [])
        \<lparr>generationHistory := replicate 25 (sample_record ''u2'' ''image-generator'' 7)\<rparr>) ''u2'' =
     (Next, [UserFindUnique ''u2''])"
proof -
  have f: "user_findUnique (sample_db ''image-generator'' []) ''u2'' = Some premium_user"
    by (simp add: user_findUnique_def sample_db_def free_user_def premium_user_def)
  have p: "isPremium premium_user" by (simp add: premium_user_def)
  show ?thesis using f p C4_premium_admitted [OF f p] by simp
qed

text \<open>
  C5 (as the code has it). The limit the check uses is the entry of the fixed table
  \<open>FREE_LIMITS\<close>, which is 10 for each of its four features. For a feature name with
  no entry (and which is not a property name inherited from \<open>Object.prototype\<close>) the
  limit is 0, not 10: every request of a non-premium user for it is answered 429.
\<close>

theorem C5_limit_table:
  "(\<forall>n. (f, n) \<in> set FREE_LIMITS \<longrightarrow> limit_of f = Some n \<and> n = 10) \<and>
   (f \<notin> fst ` set FREE_LIMITS \<and> f \<notin> set object_prototype_keys \<longrightarrow>
      limit_of f = Some 0 \<and>
      (\<forall>u. user_findUnique d uid = Some u \<and> \<not> isPremium u \<longrightarrow>
         fst (enforceDailyLimit f now d uid) =
           Respond (respond 429 (ErrorJson (limit_message 0 f)))))"
proof -
  have a: "\<forall>n. (f, n) \<in> set FREE_LIMITS \<longrightarrow> limit_of f = Some n \<and> n = 10"
    using limit_of_table by (auto simp: FREE_LIMITS_def)
  have b: "limit_of f = Some 0 \<and>
      (\<forall>u. user_findUnique d uid = Some u \<and> \<not> isPremium u \<longrightarrow>
         fst (enforceDailyLimit f now d uid) =
           Respond (respond 429 (ErrorJson (limit_message 0 f))))"
    if h: "f \<notin> fst ` set FREE_LIMITS" "f \<notin> set object_prototype_keys"
  proof -
    have l: "limit_of f = Some 0" using h by (rule limit_of_unknown)
    show ?thesis using l by (auto simp: enforce_nonpremium)
  qed
  show ?thesis using a b by blast
qed

text \<open>The table entry of \<open>image-generator\<close>, and the unknown feature \<open>video-generator\<close>.\<close>

theorem C5_limit_table_witness:
  "(''image-generator'', 10) \<in> set FREE_LIMITS \<and>
   limit_of ''image-generator'' = Some 10 \<and>
   ''video-generator'' \<notin> fst ` set FREE_LIMITS \<and>
   ''video-generator'' \<notin> set object_prototype_keys \<and>
   limit_of ''video-generator'' = Some 0 \<and>
   user_findUnique (sample_db ''video-generator'' []) ''u1'' = Some free_user \<and>
   \<not> isPremium free_user \<and>
   fst (enforceDailyLimit ''video-generator'' 1700000000000 (sample_db ''video-generator'' []) ''u1'') =
     Respond (respond 429 (ErrorJson (limit_message 0 ''video-generator'')))"
proof -
  have a: "(''image-generator'', 10) \<in> set FREE_LIMITS" by (simp add: FREE_LIMITS_def)
  have b: "''video-generator'' \<notin> fst ` set FREE_LIMITS" by (simp add: FREE_LIMITS_def)
  have c: "''video-generator'' \<notin> set object_prototype_keys"
    by (simp add: object_prototype_keys_def)
  have u: "user_findUnique (sample_db ''video-generator'' []) ''u1'' = Some free_user"
    by (simp add: user_findUnique_def sample_db_def free_user_def)
  have n: "\<not> isPremium free_user" by (simp add: free_user_def)
  from C5_limit_table [of "''image-generator''" "sample_db ''video-generator'' []" "''u1''" 1700000000000]
  have 1: "limit_of ''image-generator'' = Some 10" using a by blast
  from C5_limit_table [of "''video-generator''" "sample_db ''video-generator'' []" "''u1''" 1700000000000]
  have 2: "limit_of ''video-generator'' = Some 0 \<and>
     fst (enforceDailyLimit ''video-generator'' 1700000000000 (sample_db ''video-generator'' []) ''u1'') =
       Respond (respond 429 (ErrorJson (limit_message 0 ''video-generator'')))"
    using b c u n by blast
  show ?thesis using a b c u n 1 2 by blast
qed

text \<open>
  The claim's default of 10 fails at the feature name \<open>video-generator\<close>, which the
  table does not have: its limit is 0, and a non-premium user without any record is
  already refused.
\<close>

theorem C5_default_counterexample:
  "map_of FREE_LIMITS ''video-generator'' = None \<and>
   limit_of ''video-generator'' = Some 0 \<and>
   limit_of ''video-generator'' \<noteq> Some 10 \<and>
   fst (enforceDailyLimit ''video-generator'' 1700000000000
     \<lparr>users = [\<lparr>user_id = ''u1'', email = ''free@example.org'', isPremium = False\<rparr>],
      generationHistory = []\<rparr> ''u1'') =
     Respond (respond 429 (ErrorJson
       ''Free limit of 0 per day reached for video-generator. Upgrade to Premium for unlimited access.''))"
  by (simp add: FREE_LIMITS_def limit_of_def object_prototype_keys_def enforceDailyLimit_def
      user_findUnique_def generation_count_def limit_message_def string_of_nat.simps Let_def)

lemma startOfDay_le_iff: "setUTCHours0 now \<le> t \<longleftrightarrow> utc_day now \<le> utc_day t"
proof -
  have pos: "(0::int) < msPerDay" by (simp add: msPerDay_def)
  show ?thesis
  proof
    assume "setUTCHours0 now \<le> t"
    then have "(now div msPerDay) * msPerDay div msPerDay \<le> t div msPerDay"
      unfolding setUTCHours0_def using pos by (intro zdiv_mono1) auto
    then show "utc_day now \<le> utc_day t" using pos by (simp add: utc_day_def)
  next
    assume "utc_day now \<le> utc_day t"
    then have "(now div msPerDay) * msPerDay \<le> (t div msPerDay) * msPerDay"
      unfolding utc_day_def using pos by (simp add: mult_right_mono)
    also have "\<dots> \<le> t" using pos
      by (metis mult.commute pos_mod_sign div_mult_mod_eq le_add_same_cancel1)
    finally show "setUTCHours0 now \<le> t" by (simp add: setUTCHours0_def)
  qed
qed

lemma count_is_usage: "generation_count d uid f (setUTCHours0 now) = usage_today d uid f now"
  by (simp add: generation_count_def usage_today_def startOfDay_le_iff)

lemma provider_calls_append [simp]:
  "provider_calls (xs @ ys) = provider_calls xs @ provider_calls ys"
  by (simp add: provider_calls_def)

lemma requireAuth_Continue:
  assumes "requireAuth v d req = (Continue uid, d1, ev1)"
  shows "ev1 = [UserUpsert uid] \<and> generationHistory d1 = generationHistory d \<and>
         (\<exists>mail. d1 = user_upsert d uid mail)"
  using assms
  by (auto simp: requireAuth_def user_upsert_def Let_def split: option.splits if_splits sum.splits)

lemma sample_auth:
  "authorization req = Some ''Bearer tok1'' \<Longrightarrow>
   requireAuth (verifyToken sample_world) (sample_db f k) req =
     (Continue ''u1'', sample_db f k, [UserUpsert ''u1''])"
  by (simp add: requireAuth_def sample_world_def sample_db_def user_upsert_def user_findUnique_def
      free_user_def premium_user_def Let_def)

lemma sample_free_user: "user_findUnique (sample_db f k) ''u1'' = Some free_user"
  by (simp add: user_findUnique_def sample_db_def free_user_def)

lemma sample_usage_10:
  "usage_today (sample_db ''image-generator'' ten_ids) ''u1'' ''image-generator'' 1700000000000 = 10"
  by (simp add: usage_today_def sample_db_def sample_record_def utc_day_def msPerDay_def ten_ids_def)

text \<open>
  C3. For a user who is not premium, the daily limit check lets the request through
  exactly when the number of the user's records of that feature created since the
  start of the current UTC day is below the feature's limit. Once the count has
  reached the limit the check answers 429 with the limit message, and in each of the
  three generation routes that answer is the route's response: no provider is called
  and no record is added.
\<close>

theorem C3_quota_check:
  assumes u: "user_findUnique d uid = Some u" and np: "\<not> isPremium u"
    and l: "limit_of f = Some n"
  shows "(fst (enforceDailyLimit f now d uid) = Next \<longleftrightarrow> usage_today d uid f now < n) \<and>
     (n \<le> usage_today d uid f now \<longrightarrow>
        fst (enforceDailyLimit f now d uid) = Respond (respond 429 (ErrorJson (limit_message n f))) \<and>
        (\<forall>w d0 req ev. requireAuth (verifyToken w) d0 req = (Continue uid, d, ev) \<and> clock w = now \<longrightarrow>
           (f = ''image-generator'' \<longrightarrow>
              fst (image_route w d0 req) = respond 429 (ErrorJson (limit_message n f)) \<and>
              provider_calls (snd (snd (image_route w d0 req))) = [] \<and>
              generationHistory (fst (snd (image_route w d0 req))) = generationHistory d0) \<and>
           (f = ''background-remover'' \<longrightarrow>
              fst (bg_route w d0 req) = respond 429 (ErrorJson (limit_message n f)) \<and>
              provider_calls (snd (snd (bg_route w d0 req))) = [] \<and>
              generationHistory (fst (snd (bg_route w d0 req))) = generationHistory d0) \<and>
           (f = ''resume-analyzer'' \<longrightarrow>
              fst (resume_route w d0 req) = respond 429 (ErrorJson (limit_message n f)) \<and>
              provider_calls (snd (snd (resume_route w d0 req))) = [] \<and>
              generationHistory (fst (snd (resume_route w d0 req))) = generationHistory d0)))"
proof -
  have e: "enforceDailyLimit f now d uid =
     (if n \<le> usage_today d uid f now
      then Respond (respond 429 (ErrorJson (limit_message n f))) else Next,
      [UserFindUnique uid, GenerationCount uid f (setUTCHours0 now)])"
    using enforce_nonpremium [OF u np l] by (simp add: count_is_usage)
  have 1: "fst (enforceDailyLimit f now d uid) = Next \<longleftrightarrow> usage_today d uid f now < n"
    by (auto simp: e)
  have 2: "fst (enforceDailyLimit f now d uid) = Respond (respond 429 (ErrorJson (limit_message n f)))"
    if "n \<le> usage_today d uid f now" using that by (simp add: e)
  have 3: "(f = ''image-generator'' \<longrightarrow>
              fst (image_route w d0 req) = respond 429 (ErrorJson (limit_message n f)) \<and>
              provider_calls (snd (snd (image_route w d0 req))) = [] \<and>
              generationHistory (fst (snd (image_route w d0 req))) = generationHistory d0) \<and>
           (f = ''background-remover'' \<longrightarrow>
              fst (bg_route w d0 req) = respond 429 (ErrorJson (limit_message n f)) \<and>
              provider_calls (snd (snd (bg_route w d0 req))) = [] \<and>
              generationHistory (fst (snd (bg_route w d0 req))) = generationHistory d0) \<and>
           (f = ''resume-analyzer'' \<longrightarrow>
              fst (resume_route w d0 req) = respond 429 (ErrorJson (limit_message n f)) \<and>
              provider_calls (snd (snd (resume_route w d0 req))) = [] \<and>
              generationHistory (fst (snd (resume_route w d0 req))) = generationHistory d0)"
    if full: "n \<le> usage_today d uid f now"
      and auth: "requireAuth (verifyToken w) d0 req = (Continue uid, d, ev)" and c: "clock w = now"
    for w d0 req ev
  proof -
    from requireAuth_Continue [OF auth]
    have ev: "ev = [UserUpsert uid]" and h: "generationHistory d = generationHistory d0" by auto
    have e': "enforceDailyLimit f (clock w) d uid =
       (Respond (respond 429 (ErrorJson (limit_message n f))),
        [UserFindUnique uid, GenerationCount uid f (setUTCHours0 now)])"
      using e full c by simp
    show ?thesis
      using e' auth ev h
      by (auto simp: image_route_def bg_route_def resume_route_def provider_calls_def)
  qed
  show ?thesis using 1 2 3 by blast
qed

text \<open>
  The free user with ten \<open>image-generator\<close> records of today submits an eleventh
  request: 429, and no provider call.
\<close>

theorem C3_quota_check_witness:
  "user_findUnique (sample_db ''image-generator'' ten_ids) ''u1'' = Some free_user \<and>
   \<not> isPremium free_user \<and>
   limit_of ''image-generator'' = Some 10 \<and>
   usage_today (sample_db ''image-generator'' ten_ids) ''u1'' ''image-generator'' 1700000000000 = 10 \<and>
   fst (enforceDailyLimit ''image-generator'' 1700000000000 (sample_db ''image-generator'' ten_ids) ''u1'') \<noteq> Next \<and>
   fst (image_route sample_world (sample_db ''image-generator'' ten_ids)
          ((sample_request ''tok1'')\<lparr>body_prompt := Some (utf16_of ''a red fox'')\<rparr>)) =
     respond 429 (ErrorJson (limit_message 10 ''image-generator'')) \<and>
   provider_calls (snd (snd (image_route sample_world (sample_db ''image-generator'' ten_ids)
          ((sample_request ''tok1'')\<lparr>body_prompt := Some (utf16_of ''a red fox'')\<rparr>)))) = []"
proof -
  let ?d = "sample_db ''image-generator'' ten_ids"
  let ?req = "(sample_request ''tok1'')\<lparr>body_prompt := Some (utf16_of ''a red fox'')\<rparr>"
  have u: "user_findUnique ?d ''u1'' = Some free_user" by (rule sample_free_user)
  have np: "\<not> isPremium free_user" by (simp add: free_user_def)
  have l: "limit_of ''image-generator'' = Some 10" by (simp add: limit_of_def FREE_LIMITS_def)
  have c: "usage_today ?d ''u1'' ''image-generator'' 1700000000000 = 10" by (rule sample_usage_10)
  have a: "requireAuth (verifyToken sample_world) ?d ?req = (Continue ''u1'', ?d, [UserUpsert ''u1''])"
    by (rule sample_auth) (simp add: sample_request_def)
  have k: "clock sample_world = 1700000000000" by (simp add: sample_world_def)
  from C3_quota_check [OF u np l, of 1700000000000] c
  have 1: "fst (enforceDailyLimit ''image-generator'' 1700000000000 ?d ''u1'') \<noteq> Next"
    and 2: "\<forall>w d0 req ev. requireAuth (verifyToken w) d0 req = (Continue ''u1'', ?d, ev) \<and>
        clock w = 1700000000000 \<longrightarrow>
          fst (image_route w d0 req) = respond 429 (ErrorJson (limit_message 10 ''image-generator'')) \<and>
          provider_calls (snd (snd (image_route w d0 req))) = []"
    by simp_all
  from 2 a k have 3: "fst (image_route sample_world ?d ?req) =
      respond 429 (ErrorJson (limit_message 10 ''image-generator'')) \<and>
      provider_calls (snd (snd (image_route sample_world ?d ?req))) = []"
    by blast
  show ?thesis using u np l c 1 3 by blast
qed

section \<open>The fallback loop\<close>

lemma attempts_le: "attempts retry call cs \<le> length cs"
  by (induction cs) (auto split: sum.splits)

lemma tried_try_models:
  "tried (try_models retry name call cs st) =
     tried st @ map name (take (attempts retry call cs) cs)"
  by (induction cs arbitrary: st) (auto simp: Let_def split: sum.splits)

lemma length_tried:
  "length (tried (try_models retry name call cs loop_init)) = attempts retry call cs"
  using attempts_le [of retry call cs] by (simp add: tried_try_models loop_init_def)

lemma attempts_fatal:
  "i < attempts retry call cs \<Longrightarrow> race (call (cs ! i)) = Inl e \<Longrightarrow> \<not> retry e \<Longrightarrow>
   attempts retry call cs = Suc i"
proof (induction cs arbitrary: i)
  case Nil
  then show ?case by simp
next
  case (Cons c cs)
  show ?case
  proof (cases i)
    case 0
    with Cons.prems show ?thesis by simp
  next
    case (Suc j)
    with Cons.prems Cons.IH [of j] show ?thesis
      by (auto split: sum.splits if_splits)
  qed
qed

lemma try_models_fatal:
  "i < attempts retry call cs \<Longrightarrow> race (call (cs ! i)) = Inl e \<Longrightarrow> \<not> retry e \<Longrightarrow>
   lastError (try_models retry name call cs st) = Some e \<and>
   result (try_models retry name call cs st) = result st"
proof (induction cs arbitrary: i st)
  case Nil
  then show ?case by simp
next
  case (Cons c cs)
  show ?case
  proof (cases i)
    case 0
    with Cons.prems show ?thesis by (simp add: Let_def)
  next
    case (Suc j)
    with Cons.prems obtain e' where e': "race (call c) = Inl e'" "retry e'" "j < attempts retry call cs"
      by (auto split: sum.splits if_splits)
    from Cons.IH [OF e'(3), of "st\<lparr>lastError := Some e', tried := tried st @ [name c]\<rparr>"] Cons.prems Suc
    show ?thesis using e' by (simp add: Let_def)
  qed
qed

lemma attempts_retry_next:
  "i < attempts retry call cs \<Longrightarrow> race (call (cs ! i)) = Inl e \<Longrightarrow> retry e \<Longrightarrow>
   Suc i < length cs \<Longrightarrow> Suc i < attempts retry call cs"
proof (induction cs arbitrary: i)
  case Nil
  then show ?case by simp
next
  case (Cons c cs)
  show ?case
  proof (cases i)
    case 0
    with Cons.prems show ?thesis by (cases cs) (auto split: sum.splits)
  next
    case (Suc j)
    with Cons.prems Cons.IH [of j] show ?thesis
      by (auto split: sum.splits if_splits)
  qed
qed

lemma fatal_stops:
  assumes i: "i < length (tried (try_models retry name call cs loop_init))"
    and e: "race (call (cs ! i)) = Inl e" and f: "\<not> retry e"
  shows "tried (try_models retry name call cs loop_init) = map name (take (Suc i) cs) \<and>
         after_loop truthy (try_models retry name call cs loop_init) = Inl e"
proof -
  from i have a: "i < attempts retry call cs" by (simp add: length_tried)
  have n: "attempts retry call cs = Suc i" using a e f by (rule attempts_fatal)
  have s: "lastError (try_models retry name call cs loop_init) = Some e \<and>
           result (try_models retry name call cs loop_init) = None"
    using try_models_fatal [OF a e f, of name loop_init] by (simp add: loop_init_def)
  show ?thesis using n s by (simp add: tried_try_models after_loop_def loop_init_def)
qed

lemma retry_advances:
  assumes i: "i < length (tried (try_models retry name call cs loop_init))"
    and e: "race (call (cs ! i)) = Inl e" and r: "retry e" and n: "Suc i < length cs"
  shows "Suc i < length (tried (try_models retry name call cs loop_init)) \<and>
         tried (try_models retry name call cs loop_init) ! Suc i = name (cs ! Suc i)"
proof -
  from i have a: "i < attempts retry call cs" by (simp add: length_tried)
  have s: "Suc i < attempts retry call cs" using a e r n by (rule attempts_retry_next)
  then show ?thesis using n by (simp add: tried_try_models loop_init_def)
qed

lemma race_timer: "race TimerFired = Inl (new_Error ''Request timeout'')"
  by (simp add: race_def)

lemma timeout_retryable: "timeout_or_credit (new_Error ''Request timeout'')"
  by (simp add: timeout_or_credit_def new_Error_def)

lemma timeout_not_credit: "\<not> credit_only (new_Error ''Request timeout'')"
  by (simp add: credit_only_def new_Error_def)

lemmas loop_eval = try_models.simps race_def loop_init_def timeout_or_credit_def credit_only_def
  new_Error_def Let_def

lemma timeout_image_loop:
  "tried (image_loop timeout_world p) =
     [''black-forest-labs/FLUX.1-dev'', ''stabilityai/stable-diffusion-xl-base-1.0'']"
  by (simp add: image_loop_def image_models_def timeout_world_def sample_world_def loop_eval)

lemma timeout_bg_loop:
  "tried (bg_loop timeout_world b) = [''briaai/RMBG-2.0'']"
  by (simp add: bg_loop_def bg_models_def timeout_world_def sample_world_def loop_eval)

text \<open>
  C1 (as the code has it). In the image-generator and resume-analyzer routes a
  candidate whose timer fires before the provider call completes fails with
  \<open>Request timeout\<close>, which the loop retries: when a further candidate remains, it is
  tried next. In the background-remover route only a 402 response is retried: a timer
  that fires first ends the iteration, and the timeout error is what the loop throws.
\<close>

theorem C1_timeout_per_route:
  "(i < length (tried (image_loop w p)) \<and> textToImage w (image_models ! i) p = TimerFired \<longrightarrow>
      timeout_or_credit (new_Error ''Request timeout'') \<and>
      (Suc i < length image_models \<longrightarrow>
         Suc i < length (tried (image_loop w p)) \<and>
         tried (image_loop w p) ! Suc i = model (image_models ! Suc i))) \<and>
   (i < length (tried (resume_loop w t)) \<and> chatCompletion w (resume_models ! i) t = TimerFired \<longrightarrow>
      timeout_or_credit (new_Error ''Request timeout'') \<and>
      (Suc i < length resume_models \<longrightarrow>
         Suc i < length (tried (resume_loop w t)) \<and>
         tried (resume_loop w t) ! Suc i = model (resume_models ! Suc i))) \<and>
   (i < length (tried (bg_loop w b)) \<and> imageSegmentation w (bg_models ! i) b = TimerFired \<longrightarrow>
      \<not> credit_only (new_Error ''Request timeout'') \<and>
      tried (bg_loop w b) = take (Suc i) bg_models \<and>
      after_loop truthy_seg (bg_loop w b) = Inl (new_Error ''Request timeout''))"
proof -
  have img: "Suc i < length (tried (image_loop w p)) \<and>
         tried (image_loop w p) ! Suc i = model (image_models ! Suc i)"
    if "i < length (tried (image_loop w p))" "textToImage w (image_models ! i) p = TimerFired"
       "Suc i < length image_models"
    using that retry_advances [of i timeout_or_credit model "\<lambda>c. textToImage w c p" image_models]
    by (simp add: image_loop_def race_timer timeout_retryable)
  have res: "Suc i < length (tried (resume_loop w t)) \<and>
         tried (resume_loop w t) ! Suc i = model (resume_models ! Suc i)"
    if "i < length (tried (resume_loop w t))" "chatCompletion w (resume_models ! i) t = TimerFired"
       "Suc i < length resume_models"
    using that retry_advances [of i timeout_or_credit model "\<lambda>c. chatCompletion w c t" resume_models]
    by (simp add: resume_loop_def race_timer timeout_retryable)
  have bg: "tried (bg_loop w b) = take (Suc i) bg_models \<and>
      after_loop truthy_seg (bg_loop w b) = Inl (new_Error ''Request timeout'')"
    if "i < length (tried (bg_loop w b))" "imageSegmentation w (bg_models ! i) b = TimerFired"
    using that fatal_stops [of i credit_only "\<lambda>m. m" "\<lambda>m. imageSegmentation w m b" bg_models
        "new_Error ''Request timeout''" truthy_seg]
    by (simp add: bg_loop_def race_timer timeout_not_credit)
  show ?thesis using img res bg timeout_retryable timeout_not_credit by blast
qed

text \<open>The first candidate of the image route and of the background route timing out.\<close>

theorem C1_timeout_per_route_witness:
  "0 < length (tried (image_loop timeout_world (utf16_of ''a red fox''))) \<and>
   textToImage timeout_world (image_models ! 0) (utf16_of ''a red fox'') = TimerFired \<and>
   Suc 0 < length image_models \<and>
   tried (image_loop timeout_world (utf16_of ''a red fox'')) ! Suc 0 =
     ''stabilityai/stable-diffusion-xl-base-1.0'' \<and>
   0 < length (tried (bg_loop timeout_world [1, 2, 3])) \<and>
   imageSegmentation timeout_world (bg_models ! 0) [1, 2, 3] = TimerFired \<and>
   tried (bg_loop timeout_world [1, 2, 3]) = take (Suc 0) bg_models \<and>
   after_loop truthy_seg (bg_loop timeout_world [1, 2, 3]) = Inl (new_Error ''Request timeout'')"
proof -
  let ?p = "utf16_of ''a red fox''"
  have a: "0 < length (tried (image_loop timeout_world ?p))" by (simp add: timeout_image_loop)
  have b: "textToImage timeout_world (image_models ! 0) ?p = TimerFired"
    by (simp add: timeout_world_def sample_world_def image_models_def)
  have c: "Suc 0 < length image_models" by (simp add: image_models_def)
  have d: "0 < length (tried (bg_loop timeout_world [1, 2, 3]))" by (simp add: timeout_bg_loop)
  have e: "imageSegmentation timeout_world (bg_models ! 0) [1, 2, 3] = TimerFired"
    by (simp add: timeout_world_def sample_world_def bg_models_def)
  have m: "model (image_models ! Suc 0) = ''stabilityai/stable-diffusion-xl-base-1.0''"
    by (simp add: image_models_def)
  from C1_timeout_per_route [of 0 timeout_world ?p _ "[1, 2, 3]"] a b c d e m
  show ?thesis by simp
qed

text \<open>
  The claim fails at the background-remover route: its first model times out, the
  second would have returned a mask, and yet only the first is ever called and the
  request fails with the timeout message.
\<close>

theorem C1_bg_timeout_counterexample:
  "imageSegmentation timeout_world ''briaai/RMBG-2.0'' [137, 80, 78, 71] = TimerFired \<and>
   imageSegmentation timeout_world ''CIDAS/clipseg-rd64-refined'' [137, 80, 78, 71] =
     CallResolved (SegString ''data:image/png;base64,bWFzaw=='') \<and>
   bg_models = [''briaai/RMBG-2.0'', ''CIDAS/clipseg-rd64-refined'', ''rembg/rembg''] \<and>
   tried (bg_loop timeout_world [137, 80, 78, 71]) = [''briaai/RMBG-2.0''] \<and>
   bg_handler timeout_world (sample_db ''background-remover'' []) (Some sample_upload) (Some ''u1'') =
     (respond 500 (ErrorJson ''Image processing timed out. Please try again.''),
      sample_db ''background-remover'' [], [ProviderCall ''briaai/RMBG-2.0''])"
  by (simp add: bg_handler_def bg_process_def bg_failure_def truthy_str_def sample_upload_def
      after_loop_def
      bg_loop_def bg_models_def timeout_world_def sample_world_def loop_eval)

text \<open>
  C2. In each of the three routes, when a candidate that the loop tries fails with an
  error the route does not retry, the candidates tried are exactly those up to it: no
  later candidate is attempted, whatever it would have returned, and the loop throws
  that error.
\<close>

theorem C2_fatal_stops_iteration:
  "(i < length (tried (image_loop w p)) \<and>
    race (textToImage w (image_models ! i) p) = Inl e \<and> \<not> timeout_or_credit e \<longrightarrow>
      tried (image_loop w p) = map model (take (Suc i) image_models) \<and>
      after_loop truthy_image (image_loop w p) = Inl e) \<and>
   (i < length (tried (bg_loop w b)) \<and>
    race (imageSegmentation w (bg_models ! i) b) = Inl e \<and> \<not> credit_only e \<longrightarrow>
      tried (bg_loop w b) = take (Suc i) bg_models \<and>
      after_loop truthy_seg (bg_loop w b) = Inl e) \<and>
   (i < length (tried (resume_loop w t)) \<and>
    race (chatCompletion w (resume_models ! i) t) = Inl e \<and> \<not> timeout_or_credit e \<longrightarrow>
      tried (resume_loop w t) = map model (take (Suc i) resume_models) \<and>
      after_loop truthy_completion (resume_loop w t) = Inl e)"
  using fatal_stops [of i timeout_or_credit model "\<lambda>c. textToImage w c p" image_models e truthy_image]
    fatal_stops [of i credit_only "\<lambda>m. m" "\<lambda>m. imageSegmentation w m b" bg_models e truthy_seg]
    fatal_stops [of i timeout_or_credit model "\<lambda>c. chatCompletion w c t" resume_models e
      truthy_completion]
  by (simp add: image_loop_def bg_loop_def resume_loop_def)

text \<open>The first image model fails with status 400; the second would have succeeded.\<close>

theorem C2_fatal_stops_iteration_witness:
  "0 < length (tried (image_loop fatal_world (utf16_of ''a red fox''))) \<and>
   race (textToImage fatal_world (image_models ! 0) (utf16_of ''a red fox'')) =
     Inl (JsError ''Invalid inputs'' (Some 400)) \<and>
   \<not> timeout_or_credit (JsError ''Invalid inputs'' (Some 400)) \<and>
   textToImage fatal_world (image_models ! 1) (utf16_of ''a red fox'') =
     CallResolved (IString ''aW1hZ2U='') \<and>
   tried (image_loop fatal_world (utf16_of ''a red fox'')) = [''black-forest-labs/FLUX.1-dev''] \<and>
   after_loop truthy_image (image_loop fatal_world (utf16_of ''a red fox'')) =
     Inl (JsError ''Invalid inputs'' (Some 400))"
proof -
  let ?p = "utf16_of ''a red fox''"
  have a: "0 < length (tried (image_loop fatal_world ?p))"
    by (simp add: image_loop_def image_models_def fatal_world_def sample_world_def loop_eval)
  have b: "race (textToImage fatal_world (image_models ! 0) ?p) =
     Inl (JsError ''Invalid inputs'' (Some 400))"
    by (simp add: fatal_world_def sample_world_def image_models_def race_def)
  have c: "\<not> timeout_or_credit (JsError ''Invalid inputs'' (Some 400))"
    by (simp add: timeout_or_credit_def)
  have d: "textToImage fatal_world (image_models ! 1) ?p = CallResolved (IString ''aW1hZ2U='')"
    by (simp add: fatal_world_def sample_world_def image_models_def)
  have m: "map model (take (Suc 0) image_models) = [''black-forest-labs/FLUX.1-dev'']"
    by (simp add: image_models_def)
  from C2_fatal_stops_iteration [of 0 fatal_world ?p "JsError ''Invalid inputs'' (Some 400)"] a b c d m
  show ?thesis by simp
qed

section \<open>The handlers\<close>

lemma trim_Nil [simp]: "trim [] = []"
  by (simp add: trim_def)

lemma image_handler_short:
  assumes "short_prompt req" and "uid \<noteq> []"
  shows "image_handler w d req (Some uid) =
     (respond 400 (ErrorJson ''Prompt must be at least 3 characters.''), d, [])"
  using assms
  by (auto simp: image_handler_def short_prompt_def truthy_str_def split: option.splits)

text \<open>
  C6 (as the code has it). The handler of the image route rejects a request whose
  prompt is absent or shorter than 3 characters after trimming with status 400,
  before any provider call and without adding a record. The daily limit check is
  listed before the handler, so it runs first: the route answers what the check
  answers when the check refuses the request, and 400 otherwise.
\<close>

theorem C6_short_prompt_rejected:
  assumes s: "short_prompt req" and uid: "uid \<noteq> []"
  shows "image_handler w d req (Some uid) =
     (respond 400 (ErrorJson ''Prompt must be at least 3 characters.''), d, []) \<and>
   (\<forall>d0 ev. requireAuth (verifyToken w) d0 req = (Continue uid, d, ev) \<longrightarrow>
      image_route w d0 req =
        (case fst (enforceDailyLimit ''image-generator'' (clock w) d uid) of
           Respond r \<Rightarrow> r
         | Next \<Rightarrow> respond 400 (ErrorJson ''Prompt must be at least 3 characters.''),
         d, ev @ snd (enforceDailyLimit ''image-generator'' (clock w) d uid)) \<and>
      provider_calls (snd (snd (image_route w d0 req))) = [] \<and>
      generationHistory (fst (snd (image_route w d0 req))) = generationHistory d0)"
proof -
  have h: "image_handler w d req (Some uid) =
     (respond 400 (ErrorJson ''Prompt must be at least 3 characters.''), d, [])"
    using s uid by (rule image_handler_short)
  have r: "image_route w d0 req =
        (case fst (enforceDailyLimit ''image-generator'' (clock w) d uid) of
           Respond r \<Rightarrow> r
         | Next \<Rightarrow> respond 400 (ErrorJson ''Prompt must be at least 3 characters.''),
         d, ev @ snd (enforceDailyLimit ''image-generator'' (clock w) d uid)) \<and>
      provider_calls (snd (snd (image_route w d0 req))) = [] \<and>
      generationHistory (fst (snd (image_route w d0 req))) = generationHistory d0"
    if auth: "requireAuth (verifyToken w) d0 req = (Continue uid, d, ev)" for d0 ev
  proof -
    from requireAuth_Continue [OF auth]
    have ev: "ev = [UserUpsert uid]" and g: "generationHistory d = generationHistory d0" by auto
    have q: "provider_calls (snd (enforceDailyLimit ''image-generator'' (clock w) d uid)) = []"
      by (auto simp: enforceDailyLimit_def provider_calls_def Let_def split: option.splits)
    show ?thesis
      using auth h ev g q
      by (cases "enforceDailyLimit ''image-generator'' (clock w) d uid";
          cases "fst (enforceDailyLimit ''image-generator'' (clock w) d uid)")
         (auto simp: image_route_def provider_calls_def)
  qed
  show ?thesis using h r by blast
qed

lemma sample_short: "short_prompt ((sample_request tok)\<lparr>body_prompt := Some (utf16_of '' ab '')\<rparr>)"
  by (simp add: short_prompt_def sample_request_def trim_def js_whitespace_def utf16_of_def)

lemma sample_usage_0:
  "usage_today (sample_db ''image-generator'' []) ''u1'' ''image-generator'' 1700000000000 = 0"
  by (simp add: usage_today_def sample_db_def sample_record_def)

lemma sample_limit: "limit_of ''image-generator'' = Some 10"
  by (simp add: limit_of_def FREE_LIMITS_def)

lemma sample_not_premium: "\<not> isPremium free_user"
  by (simp add: free_user_def)

lemma sample_clock: "clock sample_world = 1700000000000"
  by (simp add: sample_world_def)

lemma sample_enforce_empty:
  "fst (enforceDailyLimit ''image-generator'' (clock sample_world) (sample_db ''image-generator'' []) ''u1'') = Next"
  using enforce_nonpremium [OF sample_free_user [of "''image-generator''" "[]"]
      sample_not_premium sample_limit, of 1700000000000]
  by (simp add: count_is_usage sample_usage_0 sample_clock)

lemma sample_enforce_full:
  "fst (enforceDailyLimit ''image-generator'' (clock sample_world) (sample_db ''image-generator'' ten_ids) ''u1'') =
     Respond (respond 429 (ErrorJson (limit_message 10 ''image-generator'')))"
  using enforce_nonpremium [OF sample_free_user [of "''image-generator''" ten_ids]
      sample_not_premium sample_limit, of 1700000000000]
  by (simp add: count_is_usage sample_usage_10 sample_clock)

text \<open>The free user without records sends the prompt \<open>" ab "\<close>.\<close>

theorem C6_short_prompt_rejected_witness:
  "short_prompt ((sample_request ''tok1'')\<lparr>body_prompt := Some (utf16_of '' ab '')\<rparr>) \<and>
   fst (image_route sample_world (sample_db ''image-generator'' [])
          ((sample_request ''tok1'')\<lparr>body_prompt := Some (utf16_of '' ab '')\<rparr>)) =
     respond 400 (ErrorJson ''Prompt must be at least 3 characters.'') \<and>
   provider_calls (snd (snd (image_route sample_world (sample_db ''image-generator'' [])
          ((sample_request ''tok1'')\<lparr>body_prompt := Some (utf16_of '' ab '')\<rparr>)))) = []"
proof -
  let ?req = "(sample_request ''tok1'')\<lparr>body_prompt := Some (utf16_of '' ab '')\<rparr>"
  let ?d = "sample_db ''image-generator'' []"
  have s: "short_prompt ?req" by (rule sample_short)
  have u: "''u1'' \<noteq> []" by simp
  have a: "requireAuth (verifyToken sample_world) ?d ?req = (Continue ''u1'', ?d, [UserUpsert ''u1''])"
    by (rule sample_auth) (simp add: sample_request_def)
  from C6_short_prompt_rejected [OF s u, of sample_world ?d] a
  have "image_route sample_world ?d ?req =
        (case fst (enforceDailyLimit ''image-generator'' (clock sample_world) ?d ''u1'') of
           Respond r \<Rightarrow> r
         | Next \<Rightarrow> respond 400 (ErrorJson ''Prompt must be at least 3 characters.''),
         ?d, [UserUpsert ''u1''] @ snd (enforceDailyLimit ''image-generator'' (clock sample_world) ?d ''u1'')) \<and>
      provider_calls (snd (snd (image_route sample_world ?d ?req))) = []"
    by blast
  note k = this
  have 1: "fst (image_route sample_world ?d ?req) =
        respond 400 (ErrorJson ''Prompt must be at least 3 characters.'')"
    using k [THEN conjunct1] by (simp add: sample_enforce_empty)
  have 2: "provider_calls (snd (snd (image_route sample_world ?d ?req))) = []"
    using k [THEN conjunct2] .
  show ?thesis using s 1 2 by blast
qed

lemma sample_route_full:
  "authorization req = Some ''Bearer tok1'' \<Longrightarrow>
   fst (image_route sample_world (sample_db ''image-generator'' ten_ids) req) =
     respond 429 (ErrorJson (limit_message 10 ''image-generator''))"
  using sample_enforce_full
  by (cases "enforceDailyLimit ''image-generator'' (clock sample_world) (sample_db ''image-generator'' ten_ids) ''u1''")
     (simp add: image_route_def sample_auth)

lemma sample_route_short_empty:
  "fst (image_route sample_world (sample_db ''image-generator'' [])
          ((sample_request ''tok1'')\<lparr>body_prompt := Some (utf16_of '' ab '')\<rparr>)) =
     respond 400 (ErrorJson ''Prompt must be at least 3 characters.'')"
proof -
  have a: "authorization ((sample_request ''tok1'')\<lparr>body_prompt := Some (utf16_of '' ab '')\<rparr>) = Some ''Bearer tok1''"
    by (simp add: sample_request_def)
  show ?thesis
    using sample_enforce_empty image_handler_short [OF sample_short, where uid = "''u1''" and w = sample_world
        and d = "sample_db ''image-generator'' []" and tok1 = "''tok1''"]
    by (cases "enforceDailyLimit ''image-generator'' (clock sample_world) (sample_db ''image-generator'' []) ''u1''")
     (simp add: image_route_def sample_auth [OF a])
qed

text \<open>
  The claim fails for the prompt \<open>" ab "\<close>: with ten records of today the request
  is answered 429 by the limit check, with none it is answered 400, so the rejection
  does depend on the usage count and the check did run before the validation.
\<close>

theorem C6_quota_first_counterexample:
  "length (trim (utf16_of '' ab '')) = 2 \<and>
   usage_today (sample_db ''image-generator'' ten_ids) ''u1'' ''image-generator'' 1700000000000 = 10 \<and>
   fst (image_route sample_world (sample_db ''image-generator'' ten_ids)
          ((sample_request ''tok1'')\<lparr>body_prompt := Some (utf16_of '' ab '')\<rparr>)) =
     respond 429 (ErrorJson
       ''Free limit of 10 per day reached for image-generator. Upgrade to Premium for unlimited access.'') \<and>
   usage_today (sample_db ''image-generator'' []) ''u1'' ''image-generator'' 1700000000000 = 0 \<and>
   fst (image_route sample_world (sample_db ''image-generator'' [])
          ((sample_request ''tok1'')\<lparr>body_prompt := Some (utf16_of '' ab '')\<rparr>)) =
     respond 400 (ErrorJson ''Prompt must be at least 3 characters.'')"
proof -
  have t: "length (trim (utf16_of '' ab '')) = 2"
    by (simp add: trim_def js_whitespace_def utf16_of_def)
  have a: "authorization ((sample_request ''tok1'')\<lparr>body_prompt := Some (utf16_of '' ab '')\<rparr>) = Some ''Bearer tok1''"
    by (simp add: sample_request_def)
  have m: "limit_message 10 ''image-generator'' =
     ''Free limit of 10 per day reached for image-generator. Upgrade to Premium for unlimited access.''"
    by (simp add: limit_message_def string_of_nat.simps)
  show ?thesis
    using t sample_usage_10 sample_usage_0 sample_route_full [OF a] sample_route_short_empty m
    by simp
qed

lemma create_record_fails:
  "store_failure w = Some e \<Longrightarrow> create_record w d uid f i out = Inl e"
  by (simp add: create_record_def generation_create_def)

lemma image_failure_shape: "status (image_failure e) = 500 \<and> (\<exists>m. json (image_failure e) = ErrorJson m)"
  by (simp add: image_failure_def respond_def)

lemma bg_failure_shape: "status (bg_failure e) = 500 \<and> (\<exists>m. json (bg_failure e) = ErrorJson m)"
  by (simp add: bg_failure_def respond_def)

lemma resume_failure_shape: "status (resume_failure e) = 500 \<and> (\<exists>m. json (resume_failure e) = ErrorJson m)"
  by (simp add: resume_failure_def respond_def)

lemma image_handler_store_down:
  assumes "store_failure w = Some e" "uid \<noteq> []" "body_prompt req = Some p" "3 \<le> length (trim p)"
    "image_generate w (buildFullPrompt p (body_style req) (body_size req)) = (Inr img, calls)"
  shows "image_handler w d req (Some uid) =
     (image_failure e, d, calls @ [GenerationCreate uid ''image-generator''])"
proof -
  from assms(4) have "p \<noteq> []" by auto
  then show ?thesis using assms
    by (simp add: image_handler_def truthy_str_def create_record_fails Let_def)
qed

lemma bg_handler_store_down:
  assumes "store_failure w = Some e" "uid \<noteq> []" "bg_process w f = (Inr img, calls)"
  shows "bg_handler w d (Some f) (Some uid) =
     (bg_failure e, d, calls @ [GenerationCreate uid ''background-remover''])"
  using assms by (simp add: bg_handler_def truthy_str_def create_record_fails)

lemma image_handler_never_200:
  assumes "store_failure w = Some e"
  shows "status (fst (image_handler w d req a)) \<noteq> 200 \<and> fst (snd (image_handler w d req a)) = d"
  using assms
  by (auto simp: image_handler_def create_record_fails image_failure_def respond_def Let_def
      split: option.splits sum.splits prod.splits if_splits)

lemma bg_handler_never_200:
  assumes "store_failure w = Some e"
  shows "status (fst (bg_handler w d upl a)) \<noteq> 200 \<and> fst (snd (bg_handler w d upl a)) = d"
  using assms
  by (auto simp: bg_handler_def create_record_fails bg_failure_def respond_def Let_def
      split: option.splits sum.splits prod.splits if_splits)

text \<open>
  C7 (as the code has it). When the store refuses the new record, a request of the
  image or the background-removal route whose provider call and conversion have
  succeeded is answered 500 with an error message: the generated output is not
  returned and the store is unchanged. With the store failing, neither handler ever
  answers 200.
\<close>

theorem C7_storage_failure_is_error:
  assumes down: "store_failure w = Some e"
  shows "(uid \<noteq> [] \<and> body_prompt req = Some p \<and> 3 \<le> length (trim p) \<and>
      image_generate w (buildFullPrompt p (body_style req) (body_size req)) = (Inr img, calls) \<longrightarrow>
        image_handler w d req (Some uid) =
          (image_failure e, d, calls @ [GenerationCreate uid ''image-generator''])) \<and>
     (uid \<noteq> [] \<and> bg_process w f = (Inr img, calls) \<longrightarrow>
        bg_handler w d (Some f) (Some uid) =
          (bg_failure e, d, calls @ [GenerationCreate uid ''background-remover''])) \<and>
     status (image_failure e) = 500 \<and> (\<exists>m. json (image_failure e) = ErrorJson m) \<and>
     status (bg_failure e) = 500 \<and> (\<exists>m. json (bg_failure e) = ErrorJson m) \<and>
     status (fst (image_handler w d req a)) \<noteq> 200 \<and> fst (snd (image_handler w d req a)) = d \<and>
     status (fst (bg_handler w d upl a)) \<noteq> 200 \<and> fst (snd (bg_handler w d upl a)) = d"
  using image_handler_store_down [OF down, of uid req p img calls d]
    bg_handler_store_down [OF down, of uid f img calls d]
    image_failure_shape [of e] bg_failure_shape [of e]
    image_handler_never_200 [OF down, of d req a] bg_handler_never_200 [OF down, of d upl a]
  by blast

lemma store_down_generate:
  "image_generate store_down_world p = (Inr ''aW1hZ2U='', [ProviderCall ''black-forest-labs/FLUX.1-dev''])"
  by (simp add: image_generate_def image_loop_def image_models_def store_down_world_def
      sample_world_def after_loop_def truthy_image_def convertToBase64_def
      try_models.simps race_def loop_init_def Let_def)

text \<open>The first image model succeeds and the store is down.\<close>

theorem C7_storage_failure_is_error_witness:
  "store_failure store_down_world = Some (new_Error ''Connection refused'') \<and>
   image_generate store_down_world (buildFullPrompt (utf16_of ''a red fox'') None None) =
     (Inr ''aW1hZ2U='', [ProviderCall ''black-forest-labs/FLUX.1-dev'']) \<and>
   image_handler store_down_world (sample_db ''image-generator'' [])
      ((sample_request ''tok1'')\<lparr>body_prompt := Some (utf16_of ''a red fox'')\<rparr>) (Some ''u1'') =
     (respond 500 (ErrorJson ''Image generation failed''), sample_db ''image-generator'' [],
      [ProviderCall ''black-forest-labs/FLUX.1-dev'', GenerationCreate ''u1'' ''image-generator''])"
proof -
  let ?req = "(sample_request ''tok1'')\<lparr>body_prompt := Some (utf16_of ''a red fox'')\<rparr>"
  have down: "store_failure store_down_world = Some (new_Error ''Connection refused'')"
    by (simp add: store_down_world_def sample_world_def)
  have u: "''u1'' \<noteq> []" by simp
  have p: "body_prompt ?req = Some (utf16_of ''a red fox'')" by (simp add: sample_request_def)
  have st: "body_style ?req = None" "body_size ?req = None" by (simp_all add: sample_request_def)
  have l: "3 \<le> length (trim (utf16_of ''a red fox''))"
    by (simp add: trim_def js_whitespace_def utf16_of_def)
  have g: "image_generate store_down_world (buildFullPrompt (utf16_of ''a red fox'') None None) =
     (Inr ''aW1hZ2U='', [ProviderCall ''black-forest-labs/FLUX.1-dev''])"
    by (rule store_down_generate)
  have f: "image_failure (new_Error ''Connection refused'') =
     respond 500 (ErrorJson ''Image generation failed'')"
    by (simp add: image_failure_def new_Error_def) code_simp
  from C7_storage_failure_is_error [OF down, of "''u1''" ?req "utf16_of ''a red fox''"
      "''aW1hZ2U=''" "[ProviderCall ''black-forest-labs/FLUX.1-dev'']" "sample_db ''image-generator'' []"]
    u p l g st
  have "image_handler store_down_world (sample_db ''image-generator'' []) ?req (Some ''u1'') =
     (image_failure (new_Error ''Connection refused''), sample_db ''image-generator'' [],
      [ProviderCall ''black-forest-labs/FLUX.1-dev''] @ [GenerationCreate ''u1'' ''image-generator''])"
    by simp
  then show ?thesis using down g f by simp
qed

lemma sample_enforce_empty_full:
  "enforceDailyLimit ''image-generator'' 1700000000000 (sample_db ''image-generator'' []) ''u1'' =
     (Next, [UserFindUnique ''u1'', GenerationCount ''u1'' ''image-generator'' 1699920000000])"
  using enforce_nonpremium [OF sample_free_user [of "''image-generator''" "[]"]
      sample_not_premium sample_limit, of 1700000000000]
  by (simp add: count_is_usage sample_usage_0) (simp add: setUTCHours0_def msPerDay_def)

text \<open>
  The claim fails on the image route: the provider call resolves with an image, the
  write of the record throws, and the response is status 500 with an error message
  instead of the image.
\<close>

theorem C7_output_lost_counterexample:
  "textToImage store_down_world (image_models ! 0) (utf16_of ''a red fox'') =
     CallResolved (IString ''aW1hZ2U='') \<and>
   store_failure store_down_world = Some (new_Error ''Connection refused'') \<and>
   image_route store_down_world (sample_db ''image-generator'' [])
      ((sample_request ''tok1'')\<lparr>body_prompt := Some (utf16_of ''a red fox'')\<rparr>) =
     (respond 500 (ErrorJson ''Image generation failed''), sample_db ''image-generator'' [],
      [UserUpsert ''u1'', UserFindUnique ''u1'',
       GenerationCount ''u1'' ''image-generator'' 1699920000000,
       ProviderCall ''black-forest-labs/FLUX.1-dev'', GenerationCreate ''u1'' ''image-generator''])"
proof -
  let ?req = "(sample_request ''tok1'')\<lparr>body_prompt := Some (utf16_of ''a red fox'')\<rparr>"
  let ?d = "sample_db ''image-generator'' []"
  have c: "textToImage store_down_world (image_models ! 0) (utf16_of ''a red fox'') =
     CallResolved (IString ''aW1hZ2U='')"
    by (simp add: store_down_world_def sample_world_def)
  have down: "store_failure store_down_world = Some (new_Error ''Connection refused'')"
    by (simp add: store_down_world_def sample_world_def)
  have v: "verifyToken store_down_world = verifyToken sample_world"
    and k: "clock store_down_world = 1700000000000"
    by (simp_all add: store_down_world_def sample_world_def)
  have a: "requireAuth (verifyToken store_down_world) ?d ?req = (Continue ''u1'', ?d, [UserUpsert ''u1''])"
    unfolding v by (rule sample_auth) (simp add: sample_request_def)
  have p: "body_prompt ?req = Some (utf16_of ''a red fox'')" "body_style ?req = None"
    "body_size ?req = None"
    by (simp_all add: sample_request_def)
  have l: "3 \<le> length (trim (utf16_of ''a red fox''))"
    by (simp add: trim_def js_whitespace_def utf16_of_def)
  have f: "image_failure (new_Error ''Connection refused'') =
     respond 500 (ErrorJson ''Image generation failed'')"
    by (simp add: image_failure_def new_Error_def) code_simp
  have h: "image_handler store_down_world ?d ?req (Some ''u1'') =
     (respond 500 (ErrorJson ''Image generation failed''), ?d,
      [ProviderCall ''black-forest-labs/FLUX.1-dev'', GenerationCreate ''u1'' ''image-generator''])"
    using image_handler_store_down [OF down _ p(1) l, of "''u1''" "''aW1hZ2U=''"
        "[ProviderCall ''black-forest-labs/FLUX.1-dev'']" ?d]
    by (simp add: p store_down_generate f)
  have r: "image_route store_down_world ?d ?req =
     (respond 500 (ErrorJson ''Image generation failed''), ?d,
      [UserUpsert ''u1'', UserFindUnique ''u1'',
       GenerationCount ''u1'' ''image-generator'' 1699920000000,
       ProviderCall ''black-forest-labs/FLUX.1-dev'', GenerationCreate ''u1'' ''image-generator''])"
    by (simp add: image_route_def a k sample_enforce_empty_full h)
  show ?thesis using c down r by blast
qed

lemma message_content_no_choices:
  "message_content (ChatCompletion None) = None \<and> message_content (ChatCompletion (Some [])) = None"
  by (simp add: message_content_def)

text \<open>
  C10. In the resume route, when the race of some candidate is won by a completion
  whose first choice has no message content (in particular a completion without
  choices), the handler takes the fixed text \<open>No analysis returned.\<close> as the analysis,
  stores a record with that text as its output and answers 200 with it.
\<close>

theorem C10_placeholder_analysis:
  assumes t: "extractTextFromPdf w (buffer f) = Inr text" and len: "100 \<le> length text"
    and c: "after_loop truthy_completion (resume_loop w text) = Inr c"
    and nc: "message_content c = None \<or> message_content c = Some []"
    and uid: "uid \<noteq> []" and ok: "store_failure w = None"
  shows "resume_handler w d (Some f) (Some uid) =
     (respond 200 (AnalysisJson ''No analysis returned.''),
      d\<lparr>generationHistory := generationHistory d @
        [\<lparr>gen_id = fresh_id w, userId = uid, feature = ''resume-analyzer'',
          gen_input = FileInput (originalname f),
          gen_output = AnalysisOutput ''No analysis returned.'',
          createdAt = store_clock w\<rparr>]\<rparr>,
      map ProviderCall (tried (resume_loop w text)) @ [GenerationCreate uid ''resume-analyzer'']) \<and>
     message_content (ChatCompletion None) = None \<and>
     message_content (ChatCompletion (Some [])) = None"
proof -
  from len have ne: "text \<noteq> []" by auto
  have a: "analysis_of c = ''No analysis returned.''"
    using nc by (auto simp: analysis_of_def)
  have "resume_handler w d (Some f) (Some uid) =
     (respond 200 (AnalysisJson ''No analysis returned.''),
      d\<lparr>generationHistory := generationHistory d @
        [\<lparr>gen_id = fresh_id w, userId = uid, feature = ''resume-analyzer'',
          gen_input = FileInput (originalname f),
          gen_output = AnalysisOutput ''No analysis returned.'',
          createdAt = store_clock w\<rparr>]\<rparr>,
      map ProviderCall (tried (resume_loop w text)) @ [GenerationCreate uid ''resume-analyzer''])"
    using t len ne c a uid ok
    by (simp add: resume_handler_def truthy_str_def create_record_def generation_create_def Let_def)
  then show ?thesis using message_content_no_choices by blast
qed

text \<open>The first chat model returns a completion with an empty list of choices.\<close>

theorem C10_placeholder_analysis_witness:
  "extractTextFromPdf no_choices_world (buffer sample_pdf) = Inr (replicate 120 65) \<and>
   chatCompletion no_choices_world (resume_models ! 0) (replicate 120 65) =
     CallResolved (ChatCompletion (Some [])) \<and>
   after_loop truthy_completion (resume_loop no_choices_world (replicate 120 65)) =
     Inr (ChatCompletion (Some [])) \<and>
   store_failure no_choices_world = None \<and>
   resume_handler no_choices_world (sample_db ''resume-analyzer'' []) (Some sample_pdf) (Some ''u1'') =
     (respond 200 (AnalysisJson ''No analysis returned.''),
      (sample_db ''resume-analyzer'' [])\<lparr>generationHistory :=
         generationHistory (sample_db ''resume-analyzer'' []) @
         [\<lparr>gen_id = ''g-new'', userId = ''u1'', feature = ''resume-analyzer'',
           gen_input = FileInput ''cv.pdf'',
           gen_output = AnalysisOutput ''No analysis returned.'',
           createdAt = 1700000000500\<rparr>]\<rparr>,
      [ProviderCall ''deepseek-ai/DeepSeek-R1-0528'', GenerationCreate ''u1'' ''resume-analyzer''])"
proof -
  let ?w = no_choices_world
  let ?t = "replicate 120 (65::nat)"
  have t: "extractTextFromPdf ?w (buffer sample_pdf) = Inr ?t"
    by (simp add: no_choices_world_def sample_world_def sample_pdf_def)
  have len: "100 \<le> length ?t" by simp
  have cc: "chatCompletion ?w (resume_models ! 0) ?t = CallResolved (ChatCompletion (Some []))"
    by (simp add: no_choices_world_def sample_world_def)
  have lp: "resume_loop ?w ?t =
     \<lparr>result = Some (ChatCompletion (Some [])), lastError = None,
      tried = [''deepseek-ai/DeepSeek-R1-0528'']\<rparr>"
    by (simp add: resume_loop_def resume_models_def no_choices_world_def sample_world_def
        try_models.simps race_def loop_init_def)
  have c: "after_loop truthy_completion (resume_loop ?w ?t) = Inr (ChatCompletion (Some []))"
    by (simp add: lp after_loop_def truthy_completion_def)
  have nc: "message_content (ChatCompletion (Some [])) = None \<or>
            message_content (ChatCompletion (Some [])) = Some []"
    by (simp add: message_content_def)
  have uid: "''u1'' \<noteq> []" by simp
  have ok: "store_failure ?w = None" by (simp add: no_choices_world_def sample_world_def)
  have w: "fresh_id ?w = ''g-new''" "store_clock ?w = 1700000000500"
    by (simp_all add: no_choices_world_def sample_world_def)
  have n: "originalname sample_pdf = ''cv.pdf''" by (simp add: sample_pdf_def)
  from C10_placeholder_analysis [OF t len c nc uid ok, of "sample_db ''resume-analyzer'' []"]
  show ?thesis using t cc c ok by (simp add: lp w n)
qed

section \<open>The history listing\<close>

lemma page_limit_cases:
  "page_limit req =
     (if js_falsy (query_limit req) then Num 20 else Math_min (query_limit req) (Num 50))"
  by (simp add: page_limit_def js_or_def Math_min_def)

lemma page_limit_default:
  "query_limit req = NaN \<or> query_limit req = Num 0 \<Longrightarrow> page_limit req = Num 20"
  by (auto simp: page_limit_def js_or_def js_falsy_def Math_min_def)

lemma page_limit_positive:
  "query_limit req = Num (of_nat n) \<Longrightarrow> 0 < n \<Longrightarrow> page_limit req = Num (of_nat (min n 50))"
  by (auto simp: page_limit_def js_or_def js_falsy_def Math_min_def min_def)

lemma page_limit_bound:
  assumes "page_limit req = Num (of_nat k)"
  shows "1 \<le> k \<and> k \<le> 50"
proof (cases "query_limit req")
  case NaN
  with assms show ?thesis by (simp add: page_limit_def js_or_def js_falsy_def Math_min_def)
next
  case (Num r)
  show ?thesis
  proof (cases "r = 0")
    case True
    with Num assms show ?thesis by (simp add: page_limit_def js_or_def js_falsy_def Math_min_def)
  next
    case False
    with Num assms have "(if r \<le> 50 then r else 50) = of_nat k"
      by (simp add: page_limit_def js_or_def js_falsy_def Math_min_def split: if_splits)
    then show ?thesis
    proof (cases "r \<le> 50")
      case True
      with \<open>(if r \<le> 50 then r else 50) = of_nat k\<close> have rk: "r = of_nat k" by simp
      with False have "k \<noteq> 0" by auto
      moreover from rk True have "(of_nat k :: rat) \<le> of_nat 50" by simp
      then have "k \<le> 50" by (simp only: of_nat_le_iff)
      ultimately show ?thesis by simp
    next
      case False
      with \<open>(if r \<le> 50 then r else 50) = of_nat k\<close> have "(of_nat 50 :: rat) = of_nat k" by simp
      then have "k = 50" by (simp only: of_nat_eq_iff)
      then show ?thesis by simp
    qed
  qed
next
  case PosInfinity
  with assms show ?thesis by (simp add: page_limit_def js_or_def js_falsy_def Math_min_def)
next
  case NegInfinity
  with assms show ?thesis by (simp add: page_limit_def js_or_def js_falsy_def Math_min_def)
qed

lemma sorted_user_rows: "sorted_wrt (\<lambda>a b. createdAt b \<le> createdAt a) (user_rows_desc d uid)"
proof -
  have "sorted (map (\<lambda>g. - createdAt g) (user_rows_desc d uid))"
    unfolding user_rows_desc_def by (rule sorted_sort_key)
  then show ?thesis by (simp add: sorted_map)
qed

lemma set_user_rows:
  "set (user_rows_desc d uid) = {g \<in> set (generationHistory d). userId g = uid}"
  by (auto simp: user_rows_desc_def)

lemma findMany_forward:
  "generation_findMany d uid cursor skip (Num (of_nat k)) =
     Inr (take k (drop skip
       (case cursor of
          None \<Rightarrow> user_rows_desc d uid
        | Some c \<Rightarrow> dropWhile (\<lambda>g. gen_id g \<noteq> c) (user_rows_desc d uid))))"
  by (simp add: generation_findMany_def Let_def)

lemma sorted_wrt_dropWhile: "sorted_wrt P xs \<Longrightarrow> sorted_wrt P (dropWhile Q xs)"
  by (simp add: dropWhile_eq_drop sorted_wrt_drop)

lemma page_sorted:
  "sorted_wrt (\<lambda>a b. createdAt b \<le> createdAt a)
     (take k (drop skip
       (case cursor of
          None \<Rightarrow> user_rows_desc d uid
        | Some c \<Rightarrow> dropWhile (\<lambda>g. gen_id g \<noteq> c) (user_rows_desc d uid))))"
  by (cases cursor)
     (simp_all add: sorted_wrt_take sorted_wrt_drop sorted_wrt_dropWhile sorted_user_rows)

lemma page_subset:
  "set (take k (drop skip
       (case cursor of
          None \<Rightarrow> user_rows_desc d uid
        | Some c \<Rightarrow> dropWhile (\<lambda>g. gen_id g \<noteq> c) (user_rows_desc d uid))))
   \<subseteq> set (user_rows_desc d uid)"
proof -
  have "set (take k (drop skip xs)) \<subseteq> set xs" for xs :: "generation list"
    by (meson set_take_subset set_drop_subset subset_trans)
  moreover have "set (dropWhile Q xs) \<subseteq> set xs" for Q and xs :: "generation list"
    by (simp add: dropWhile_eq_drop set_drop_subset)
  ultimately show ?thesis
    by (cases cursor) (auto simp del: set_take_subset set_drop_subset dest!: subsetD)
qed

lemma dropWhile_cursor:
  "\<forall>x \<in> set pre. gen_id x \<noteq> c \<Longrightarrow> gen_id g = c \<Longrightarrow>
   dropWhile (\<lambda>g. gen_id g \<noteq> c) (pre @ g # post) = g # post"
  by (simp add: dropWhile_append2)

text \<open>
  C9 (as the code has it). The page size of a history listing is 20 when the
  \<open>limit\<close> parameter is absent, non-numeric or zero, and the requested limit capped at
  50 when it is a positive integer. With such a page size \<open>k\<close> the handler answers 200
  with at most \<open>k\<close> of the user's records in descending order of creation time: the
  first \<open>k\<close> of them without a cursor, and with a cursor the first \<open>k\<close> of those that
  follow the record whose id is the cursor.
\<close>

theorem C9_history_page:
  assumes k: "page_limit req = Num (of_nat k)"
  shows "(\<exists>page pg.
      history_handler d req uid =
        (respond 200 (HistoryJson (map select_row page) pg),
         [GenerationFindMany uid, GenerationCountAll uid]) \<and>
      limit pg = Num (of_nat k) \<and> 1 \<le> k \<and> k \<le> 50 \<and> length page \<le> k \<and>
      sorted_wrt (\<lambda>a b. createdAt b \<le> createdAt a) page \<and>
      set page \<subseteq> {g \<in> set (generationHistory d). userId g = uid} \<and>
      (page_cursor req = None \<longrightarrow> page = take k (user_rows_desc d uid)) \<and>
      (\<forall>c pre g post.
         page_cursor req = Some c \<and> user_rows_desc d uid = pre @ g # post \<and> gen_id g = c \<and>
         (\<forall>x \<in> set pre. gen_id x \<noteq> c) \<longrightarrow> page = take k post)) \<and>
     (query_limit req = NaN \<or> query_limit req = Num 0 \<longrightarrow> page_limit req = Num 20) \<and>
     (\<forall>n. query_limit req = Num (of_nat n) \<and> 0 < n \<longrightarrow>
        page_limit req = Num (of_nat (min n 50)))"
proof -
  define start where "start =
    (case page_cursor req of
       None \<Rightarrow> user_rows_desc d uid
     | Some c \<Rightarrow> dropWhile (\<lambda>g. gen_id g \<noteq> c) (user_rows_desc d uid))"
  define skip :: nat where "skip = (if page_cursor req = None then 0 else 1)"
  define page where "page = take k (drop skip start)"
  have fm: "generation_findMany d uid (page_cursor req) skip (page_limit req) = Inr page"
    unfolding k page_def start_def by (rule findMany_forward)
  obtain pg where h: "history_handler d req uid =
        (respond 200 (HistoryJson (map select_row page) pg),
         [GenerationFindMany uid, GenerationCountAll uid])" and pl: "limit pg = Num (of_nat k)"
    using fm k by (simp add: history_handler_def Let_def skip_def)
  have b: "1 \<le> k \<and> k \<le> 50" using k by (rule page_limit_bound)
  have len: "length page \<le> k" by (simp add: page_def)
  have srt: "sorted_wrt (\<lambda>a b. createdAt b \<le> createdAt a) page"
    unfolding page_def start_def by (rule page_sorted)
  have sub: "set page \<subseteq> {g \<in> set (generationHistory d). userId g = uid}"
    using page_subset [where k = k and skip = skip and cursor = "page_cursor req" and d = d and uid = uid]
    by (simp add: page_def start_def set_user_rows)
  have nocur: "page = take k (user_rows_desc d uid)" if "page_cursor req = None"
    using that by (simp add: page_def start_def skip_def)
  have cur: "page = take k post"
    if "page_cursor req = Some c" "user_rows_desc d uid = pre @ g # post" "gen_id g = c"
       "\<forall>x \<in> set pre. gen_id x \<noteq> c" for c pre g post
    using that by (simp add: page_def start_def skip_def dropWhile_cursor)
  have first: "\<exists>page pg.
      history_handler d req uid =
        (respond 200 (HistoryJson (map select_row page) pg),
         [GenerationFindMany uid, GenerationCountAll uid]) \<and>
      limit pg = Num (of_nat k) \<and> 1 \<le> k \<and> k \<le> 50 \<and> length page \<le> k \<and>
      sorted_wrt (\<lambda>a b. createdAt b \<le> createdAt a) page \<and>
      set page \<subseteq> {g \<in> set (generationHistory d). userId g = uid} \<and>
      (page_cursor req = None \<longrightarrow> page = take k (user_rows_desc d uid)) \<and>
      (\<forall>c pre g post.
         page_cursor req = Some c \<and> user_rows_desc d uid = pre @ g # post \<and> gen_id g = c \<and>
         (\<forall>x \<in> set pre. gen_id x \<noteq> c) \<longrightarrow> page = take k post)"
    using h pl b len srt sub nocur cur by (intro exI [of _ page] exI [of _ pg]) blast
  show ?thesis using first page_limit_default [of req] page_limit_positive [of req] by blast
qed

lemma sample_rows:
  "user_rows_desc (sample_db f five_ids) ''u1'' =
     [sample_record ''u1'' f 4, sample_record ''u1'' f 3, sample_record ''u1'' f 2,
      sample_record ''u1'' f 1, sample_record ''u1'' f 0]"
  by (simp add: user_rows_desc_def sample_db_def five_ids_def sample_record_def)

lemma sample_gen_id: "i < 10 \<Longrightarrow> gen_id (sample_record u f i) = ''g'' @ [''0123456789'' ! i]"
  by (simp add: sample_record_def string_of_nat.simps)

text \<open>Five records, page size 2, cursor \<open>g3\<close>: the page is \<open>g2\<close>, \<open>g1\<close>.\<close>

theorem C9_history_page_witness:
  "page_limit paged_request = Num (of_nat 2) \<and>
   page_cursor paged_request = Some ''g3'' \<and>
   gen_id (sample_record ''u1'' ''image-generator'' 3) = ''g3'' \<and>
   (\<exists>pg. history_handler (sample_db ''image-generator'' five_ids) paged_request ''u1'' =
      (respond 200 (HistoryJson
         (map select_row [sample_record ''u1'' ''image-generator'' 2,
                          sample_record ''u1'' ''image-generator'' 1]) pg),
       [GenerationFindMany ''u1'', GenerationCountAll ''u1'']))"
proof -
  let ?f = "''image-generator''"
  let ?d = "sample_db ?f five_ids"
  have k: "page_limit paged_request = Num (of_nat 2)"
    by (simp add: page_limit_def paged_request_def sample_request_def js_or_def js_falsy_def
        Math_min_def)
  have c: "page_cursor paged_request = Some ''g3''"
    by (simp add: page_cursor_def paged_request_def sample_request_def truthy_str_def)
  have rows: "user_rows_desc ?d ''u1'' =
     [sample_record ''u1'' ?f 4] @ sample_record ''u1'' ?f 3 #
     [sample_record ''u1'' ?f 2, sample_record ''u1'' ?f 1, sample_record ''u1'' ?f 0]"
    by (simp add: sample_rows)
  have g: "gen_id (sample_record ''u1'' ?f 3) = ''g3''" by (simp add: sample_gen_id)
  have pre: "\<forall>x \<in> set [sample_record ''u1'' ?f 4]. gen_id x \<noteq> ''g3''"
    by (simp add: sample_gen_id)
  from C9_history_page [OF k, of ?d "''u1''"]
  obtain page pg where h: "history_handler ?d paged_request ''u1'' =
        (respond 200 (HistoryJson (map select_row page) pg),
         [GenerationFindMany ''u1'', GenerationCountAll ''u1''])"
    and cur: "\<forall>c pre g post.
         page_cursor paged_request = Some c \<and> user_rows_desc ?d ''u1'' = pre @ g # post \<and>
         gen_id g = c \<and> (\<forall>x \<in> set pre. gen_id x \<noteq> c) \<longrightarrow> page = take 2 post"
    by auto
  from cur c rows g pre
  have "page = take 2 [sample_record ''u1'' ?f 2, sample_record ''u1'' ?f 1, sample_record ''u1'' ?f 0]"
    by blast
  then have p: "page = [sample_record ''u1'' ?f 2, sample_record ''u1'' ?f 1]" by simp
  show ?thesis using k c g h p by blast
qed

text \<open>
  The claim fails for \<open>limit=0\<close>: the parameter is present and numeric, the requested
  limit capped at 50 is 0, but \<open>Number(req.query.limit) || 20\<close> makes the page size 20
  and all five records are returned.
\<close>

theorem C9_zero_limit_counterexample:
  "query_limit zero_limit_request = Num 0 \<and>
   page_limit zero_limit_request = Num 20 \<and>
   page_limit zero_limit_request \<noteq> Math_min (query_limit zero_limit_request) (Num 50) \<and>
   history_handler (sample_db ''image-generator'' five_ids) zero_limit_request ''u1'' =
     (respond 200 (HistoryJson
        (map select_row
           [sample_record ''u1'' ''image-generator'' 4, sample_record ''u1'' ''image-generator'' 3,
            sample_record ''u1'' ''image-generator'' 2, sample_record ''u1'' ''image-generator'' 1,
            sample_record ''u1'' ''image-generator'' 0])
        \<lparr>currentPage = Num 1, totalCount = 5, hasNextPage = False, hasPreviousPage = False,
         nextCursor = Some ''g0'', limit = Num 20\<rparr>),
      [GenerationFindMany ''u1'', GenerationCountAll ''u1''])"
proof -
  let ?d = "sample_db ''image-generator'' five_ids"
  have q: "query_limit zero_limit_request = Num 0"
    by (simp add: zero_limit_request_def sample_request_def)
  have l: "page_limit zero_limit_request = Num 20"
    by (simp add: page_limit_def q js_or_def js_falsy_def Math_min_def)
  have n: "page_limit zero_limit_request \<noteq> Math_min (query_limit zero_limit_request) (Num 50)"
    by (simp add: l q Math_min_def)
  have c: "page_cursor zero_limit_request = None"
    by (simp add: page_cursor_def zero_limit_request_def sample_request_def truthy_str_def)
  have p: "query_page zero_limit_request = NaN"
    by (simp add: zero_limit_request_def sample_request_def)
  have fm: "generation_findMany ?d ''u1'' None 0 (Num 20) = Inr (user_rows_desc ?d ''u1'')"
    using findMany_forward [of ?d "''u1''" None 0 20] by (simp add: sample_rows)
  have t: "generation_count_all ?d ''u1'' = 5"
    by (simp add: generation_count_all_def sample_db_def five_ids_def sample_record_def)
  have h: "history_handler ?d zero_limit_request ''u1'' =
     (respond 200 (HistoryJson
        (map select_row
           [sample_record ''u1'' ''image-generator'' 4, sample_record ''u1'' ''image-generator'' 3,
            sample_record ''u1'' ''image-generator'' 2, sample_record ''u1'' ''image-generator'' 1,
            sample_record ''u1'' ''image-generator'' 0])
        \<lparr>currentPage = Num 1, totalCount = 5, hasNextPage = False, hasPreviousPage = False,
         nextCursor = Some ''g0'', limit = Num 20\<rparr>),
      [GenerationFindMany ''u1'', GenerationCountAll ''u1''])"
    by (simp add: history_handler_def l c p fm t sample_rows sample_gen_id js_or_def js_falsy_def
        Math_max_def js_gt_def Let_def)
  show ?thesis using q l n h by blast
qed

section \<open>The composited canvas\<close>







end
